theory Spec2Isabelle
  imports
    Complex_Main
    "HOL-Library.AList"
    "HOL-Library.Char_ord"
    "HOL-Library.List_Lexorder"
    "HOL-Library.Product_Lexorder"
begin

section \<open>The course recommender: data model\<close>

text \<open>
  The scoring engine of \<^verbatim>\<open>src/app/recommender.py\<close> over the snapshot type of
  \<^verbatim>\<open>src/app/data_loader.py\<close>.

  Conventions of the embedding.
  \<^item> A Python \<^verbatim>\<open>dict\<close> is an association list in insertion order; \<^verbatim>\<open>d.get(k, v)\<close> is
    \<open>dict_get\<close>, \<^verbatim>\<open>d[k] = v\<close> is \<open>AList.update\<close> (replace in place, or append), and
    \<^verbatim>\<open>d[k]\<close> on a missing key raises \<^verbatim>\<open>KeyError\<close>: the function returns \<open>None\<close>.
  \<^item> A Python \<^verbatim>\<open>set\<close> is a list; \<^verbatim>\<open>x in s\<close> is \<open>x \<in> set s\<close>, \<^verbatim>\<open>len(s)\<close> is
    \<open>card (set s)\<close>, a loop over the set runs over the list, and a set comprehension
    removes duplicates.
  \<^item> A Python \<^verbatim>\<open>float\<close> is an exact rational: no rounding error, overflow or NaN.
  \<^item> A Python \<^verbatim>\<open>str\<close> is a \<open>string\<close>, one \<open>char\<close> per code point below 256.
  \<^item> The cached snapshot returned by \<^verbatim>\<open>get_dataset()\<close> is an explicit parameter.
\<close>

type_synonym ('k, 'v) dict = "('k \<times> 'v) list"

type_synonym row = "(string, string) dict"

record SyntheticDataset =
  courses :: "(string, row) dict"
  students :: "(string, row) dict"
  enrollments :: "row list"
  preferences :: "(string, row list) dict"
  performance :: "(string, row) dict"
  student_completed_courses :: "(string, string list) dict"
  student_interest_tags :: "(string, string list) dict"
  course_skill_tags :: "(string, string list) dict"
  collaborative_matrix :: "(string, string list) dict"
  interest_catalog :: "string list"

record recommendation =
  course_id :: string
  course_code :: "string option"
  title :: "string option"
  category :: "string option"
  delivery_mode :: "string option"
  combined_score :: rat
  content_score :: rat
  collab_score :: rat
  skills :: "string list"
  description :: "string option"
  explanation :: string

section \<open>Python built-ins used by the engine\<close>

definition dict_get :: "('k, 'v) dict \<Rightarrow> 'k \<Rightarrow> 'v \<Rightarrow> 'v" where
  "dict_get d k dflt = (case map_of d k of None \<Rightarrow> dflt | Some v \<Rightarrow> v)"

text \<open>\<^verbatim>\<open>c[k] += w\<close> on a \<^verbatim>\<open>Counter\<close> or a \<^verbatim>\<open>defaultdict(float)\<close>: a missing key reads 0.\<close>

definition counter_add :: "'k \<Rightarrow> rat \<Rightarrow> ('k, rat) dict \<Rightarrow> ('k, rat) dict" where
  "counter_add k w d = AList.update k (dict_get d k 0 + w) d"

text \<open>\<^verbatim>\<open>s.split(sep)\<close> with a one-character separator.\<close>

fun py_split :: "char \<Rightarrow> string \<Rightarrow> string list" where
  "py_split sep [] = [[]]"
| "py_split sep (c # cs) =
     (if c = sep then [] # py_split sep cs
      else (case py_split sep cs of [] \<Rightarrow> [[c]] | w # ws \<Rightarrow> (c # w) # ws))"

text \<open>\<^verbatim>\<open>str.isspace\<close> on the code points below 256.\<close>

definition py_isspace :: "char \<Rightarrow> bool" where
  "py_isspace c = ((of_char c :: nat) \<in> {9, 10, 11, 12, 13, 28, 29, 30, 31, 32, 133, 160})"

definition py_strip :: "string \<Rightarrow> string" where
  "py_strip s = rev (dropWhile py_isspace (rev (dropWhile py_isspace s)))"

text \<open>\<^verbatim>\<open>str.lower\<close> on the code points below 256.\<close>

definition py_lower_char :: "char \<Rightarrow> char" where
  "py_lower_char c =
     (let n = (of_char c :: nat)
      in if (65 \<le> n \<and> n \<le> 90) \<or> (192 \<le> n \<and> n \<le> 222 \<and> n \<noteq> 215)
         then char_of (n + 32) else c)"

definition py_lower :: "string \<Rightarrow> string" where
  "py_lower s = map py_lower_char s"

text \<open>\<^verbatim>\<open>sep.join(xs)\<close>.\<close>

fun py_join :: "string \<Rightarrow> string list \<Rightarrow> string" where
  "py_join sep [] = []"
| "py_join sep [x] = x"
| "py_join sep (x # y # ys) = x @ sep @ py_join sep (y # ys)"

text \<open>\<^verbatim>\<open>str(n)\<close> for a length.\<close>

fun py_str_nat :: "nat \<Rightarrow> string" where
  "py_str_nat n =
     (if n < 10 then [char_of (48 + n)]
      else py_str_nat (n div 10) @ [char_of (48 + n mod 10)])"

declare py_str_nat.simps [simp del]

text \<open>\<^verbatim>\<open>xs[:n]\<close>: a negative bound counts from the end.\<close>

definition py_slice_to :: "int \<Rightarrow> 'a list \<Rightarrow> 'a list" where
  "py_slice_to n xs =
     (if 0 \<le> n then take (nat n) xs else take (length xs - nat (- n)) xs)"

text \<open>\<^verbatim>\<open>round(x, 3)\<close>: to the nearest multiple of 1/1000, a tie to the even one.\<close>

definition py_round3 :: "rat \<Rightarrow> rat" where
  "py_round3 x =
     (let y = x * 1000; f = \<lfloor>y\<rfloor>; d = y - of_int f
      in of_int (if d < 1 / 2 then f else if 1 / 2 < d then f + 1
                 else if even f then f else f + 1) / 1000)"

text \<open>A loop whose body may raise: the first \<open>None\<close> ends it.\<close>

fun fold_opt :: "('a \<Rightarrow> 'b \<Rightarrow> 'b option) \<Rightarrow> 'a list \<Rightarrow> 'b \<Rightarrow> 'b option" where
  "fold_opt f [] s = Some s"
| "fold_opt f (x # xs) s = (case f x s of None \<Rightarrow> None | Some s' \<Rightarrow> fold_opt f xs s')"

fun filter_opt :: "('a \<Rightarrow> bool option) \<Rightarrow> 'a list \<Rightarrow> 'a list option" where
  "filter_opt p [] = Some []"
| "filter_opt p (x # xs) =
     (case p x of None \<Rightarrow> None
      | Some b \<Rightarrow> (case filter_opt p xs of None \<Rightarrow> None
                  | Some ys \<Rightarrow> Some (if b then x # ys else ys)))"

fun map_opt :: "('a \<Rightarrow> 'b option) \<Rightarrow> 'a list \<Rightarrow> 'b list option" where
  "map_opt f [] = Some []"
| "map_opt f (x # xs) =
     (case f x of None \<Rightarrow> None
      | Some y \<Rightarrow> (case map_opt f xs of None \<Rightarrow> None | Some ys \<Rightarrow> Some (y # ys)))"

section \<open>The engine\<close>

subsection \<open>Normalizer\<close>

definition normalize_scores :: "(string, rat) dict \<Rightarrow> (string, rat) dict" where
  "normalize_scores scores =
     (if scores = [] then []
      else
        let min_score = Min (set (map snd scores));
            max_score = Max (set (map snd scores))
        in if max_score = min_score then map (\<lambda>(key, value). (key, 1)) scores
           else
             let spread = max_score - min_score
             in map (\<lambda>(key, value). (key, (value - min_score) / spread)) scores)"

subsection \<open>Prerequisite gate\<close>

definition split_to_set :: "string \<Rightarrow> string list" where
  "split_to_set v =
     remdups (map py_strip (filter (\<lambda>item. py_strip item \<noteq> []) (py_split CHR ''|'' v)))"

definition prerequisites_met :: "string \<Rightarrow> string list \<Rightarrow> SyntheticDataset \<Rightarrow> bool option" where
  "prerequisites_met cid completed_courses dataset =
     (case map_of (courses dataset) cid of
        None \<Rightarrow> None
      | Some course \<Rightarrow>
          let prereqs = dict_get course ''prerequisites'' []
          in Some (if prereqs = [] then True
                   else set (split_to_set prereqs) \<subseteq> set completed_courses))"

subsection \<open>Profile builder\<close>

text \<open>The body of the loop of \<^verbatim>\<open>_content_profile_from_courses\<close>, for one course.\<close>

definition profile_add_course ::
  "SyntheticDataset \<Rightarrow> string \<Rightarrow> (string, rat) dict \<Rightarrow> (string, rat) dict option" where
  "profile_add_course dataset cid profile =
     (let p1 = fold (\<lambda>skill p. counter_add skill 1 p)
                 (dict_get (course_skill_tags dataset) cid []) profile
      in case map_of (courses dataset) cid of
           None \<Rightarrow> Some p1
         | Some course \<Rightarrow>
             if course = [] then Some p1
             else (case map_of course ''category'' of
                     None \<Rightarrow> None
                   | Some cat \<Rightarrow>
                       let p2 = counter_add (''category::'' @ cat) (6 / 10) p1;
                           p3 = fold (\<lambda>term p. counter_add (''term::'' @ py_lower term) (2 / 10) p)
                                  (split_to_set (dict_get course ''term_patterns'' [])) p2
                       in Some (counter_add
                                  (''delivery::'' @ dict_get course ''delivery_mode'' [])
                                  (4 / 10) p3)))"

definition content_profile_from_courses ::
  "string list \<Rightarrow> SyntheticDataset \<Rightarrow> (string, rat) dict option" where
  "content_profile_from_courses course_ids dataset =
     fold_opt (profile_add_course dataset) course_ids []"

definition content_profile_from_interests :: "string list \<Rightarrow> (string, rat) dict" where
  "content_profile_from_interests interests =
     fold (\<lambda>interest p. counter_add interest 1 p) interests []"

subsection \<open>Content scorer\<close>

text \<open>The body of the loop of \<^verbatim>\<open>_score_content\<close>: the raw score of one candidate.\<close>

definition score_course ::
  "SyntheticDataset \<Rightarrow> (string, rat) dict \<Rightarrow> string \<Rightarrow> rat option" where
  "score_course dataset profile cid =
     (case map_of (courses dataset) cid of
        None \<Rightarrow> None
      | Some course \<Rightarrow>
          let s1 = fold (\<lambda>skill s. s + dict_get profile skill 0)
                     (dict_get (course_skill_tags dataset) cid []) 0
          in (case map_of course ''category'' of
                None \<Rightarrow> None
              | Some cat \<Rightarrow>
                  let s2 = s1 + dict_get profile (''category::'' @ cat) 0;
                      s3 = s2 + dict_get profile
                                  (''delivery::'' @ dict_get course ''delivery_mode'' []) 0
                  in Some (fold (\<lambda>term s. s + (1 / 10) * dict_get profile (''term::'' @ py_lower term) 0)
                             (split_to_set (dict_get course ''term_patterns'' [])) s3)))"

definition score_content ::
  "string list \<Rightarrow> (string, rat) dict \<Rightarrow> SyntheticDataset \<Rightarrow> (string, rat) dict option" where
  "score_content candidate_set profile dataset =
     fold_opt (\<lambda>cid scores. map_option (\<lambda>s. AList.update cid s scores)
                              (score_course dataset profile cid))
       candidate_set []"

subsection \<open>Collaborative scorers\<close>

text \<open>The body of the outer loop of \<^verbatim>\<open>_score_collaborative_history\<close>, for one entry.\<close>

definition collab_history_step ::
  "string \<Rightarrow> string list \<Rightarrow> string list \<Rightarrow> string \<times> string list \<Rightarrow>
   (string, rat) dict \<Rightarrow> (string, rat) dict" where
  "collab_history_step student_id candidate_set completed_courses entry collab_scores =
     (let other_student = fst entry; other_courses = snd entry
      in if other_student = student_id then collab_scores
         else
           let intersection = card (set completed_courses \<inter> set other_courses)
           in if intersection = 0 then collab_scores
              else
                let union = card (set completed_courses \<union> set other_courses)
                in if union = 0 then collab_scores
                   else
                     let similarity = of_nat intersection / of_nat union
                     in if similarity \<le> 0 then collab_scores
                        else fold (\<lambda>cid acc.
                                     if cid \<in> set completed_courses \<or> cid \<notin> set candidate_set
                                     then acc else counter_add cid similarity acc)
                               other_courses collab_scores)"

definition score_collaborative_history ::
  "string \<Rightarrow> string list \<Rightarrow> string list \<Rightarrow> SyntheticDataset \<Rightarrow> (string, rat) dict" where
  "score_collaborative_history student_id candidate_set completed_courses dataset =
     fold (collab_history_step student_id candidate_set completed_courses)
       (student_completed_courses dataset) []"

definition collab_interests_step ::
  "string list \<Rightarrow> string list \<Rightarrow> SyntheticDataset \<Rightarrow> string \<times> string list \<Rightarrow>
   (string, rat) dict \<Rightarrow> (string, rat) dict" where
  "collab_interests_step candidate_set interest_tags dataset entry collab_scores =
     (let student_id = fst entry; tags = snd entry;
          overlap = card (set tags \<inter> set interest_tags)
      in if overlap = 0 then collab_scores
         else
           let similarity = of_nat overlap / of_nat (card (set interest_tags))
           in if similarity \<le> 0 then collab_scores
              else fold (\<lambda>cid acc.
                           if cid \<notin> set candidate_set then acc
                           else counter_add cid similarity acc)
                     (dict_get (student_completed_courses dataset) student_id [])
                     collab_scores)"

definition score_collaborative_interests ::
  "string list \<Rightarrow> string list \<Rightarrow> SyntheticDataset \<Rightarrow> (string, rat) dict" where
  "score_collaborative_interests candidate_set interest_tags dataset =
     (if interest_tags = [] then []
      else fold (collab_interests_step candidate_set interest_tags dataset)
             (student_interest_tags dataset) [])"

subsection \<open>Explanation and payload\<close>

definition build_explanation ::
  "string \<Rightarrow> rat \<Rightarrow> rat \<Rightarrow> string list \<Rightarrow> SyntheticDataset \<Rightarrow> string" where
  "build_explanation cid content collab skill_list dataset =
     (let fragments1 =
            (if content \<noteq> 0
             then [''matches your focus on '' @
                   (if skill_list \<noteq> [] then py_join '', '' (take 3 skill_list)
                    else ''related skills'')]
             else []);
          fragments2 =
            (if collab \<noteq> 0
             then fragments1 @
                  [''popular with '' @
                   py_str_nat (card (set (dict_get (collaborative_matrix dataset) cid []))) @
                   '' similar students'']
             else fragments1);
          fragments3 =
            (if fragments2 = [] then [''broadens your MAC coursework''] else fragments2)
      in py_join '' and '' fragments3)"

text \<open>The body of the loop of \<^verbatim>\<open>_build_recommendation_payload\<close>, for one ranked item.\<close>

definition payload_record ::
  "(string, rat) dict \<Rightarrow> (string, rat) dict \<Rightarrow> SyntheticDataset \<Rightarrow> string \<times> rat \<Rightarrow>
   recommendation option" where
  "payload_record content_scores collab_scores dataset item =
     (let cid = fst item; score = snd item
      in case map_of (courses dataset) cid of
           None \<Rightarrow> None
         | Some course \<Rightarrow>
             let skill_list = sort (dict_get (course_skill_tags dataset) cid [])
             in Some \<lparr>course_id = cid,
                      course_code = map_of course ''course_code'',
                      title = map_of course ''title'',
                      category = map_of course ''category'',
                      delivery_mode = map_of course ''delivery_mode'',
                      combined_score = py_round3 score,
                      content_score = py_round3 (dict_get content_scores cid 0),
                      collab_score = py_round3 (dict_get collab_scores cid 0),
                      skills = skill_list,
                      description = map_of course ''description'',
                      explanation =
                        build_explanation cid (dict_get content_scores cid 0)
                          (dict_get collab_scores cid 0) skill_list dataset\<rparr>)"

text \<open>The sort key of the source, \<^verbatim>\<open>lambda item: (-item[1], item[0])\<close>; \<^verbatim>\<open>sorted\<close> is stable, as \<open>sort_key\<close> is.\<close>

definition rank_key :: "string \<times> rat \<Rightarrow> rat \<times> string" where
  "rank_key item = (- snd item, fst item)"

definition build_recommendation_payload ::
  "(string, rat) dict \<Rightarrow> (string, rat) dict \<Rightarrow> (string, rat) dict \<Rightarrow> SyntheticDataset \<Rightarrow>
   int \<Rightarrow> recommendation list option" where
  "build_recommendation_payload combined_scores content_scores collab_scores dataset top_n =
     (let ranked = py_slice_to top_n (sort_key rank_key combined_scores)
      in map_opt (payload_record content_scores collab_scores dataset) ranked)"

subsection \<open>The two entry points\<close>

definition candidate_courses :: "string list \<Rightarrow> SyntheticDataset \<Rightarrow> string list" where
  "candidate_courses completed_courses dataset =
     remdups (filter (\<lambda>cid. cid \<notin> set completed_courses) (map fst (courses dataset)))"

text \<open>The loop that fills \<^verbatim>\<open>combined_scores\<close>, with the weights of the mode.\<close>

definition combine_scores ::
  "rat \<Rightarrow> rat \<Rightarrow> string list \<Rightarrow> (string, rat) dict \<Rightarrow> (string, rat) dict \<Rightarrow>
   (string, rat) dict" where
  "combine_scores w_content w_collab candidate_set content_scores collab_scores =
     fold (\<lambda>cid d. AList.update cid
                     (w_content * dict_get content_scores cid 0
                      + w_collab * dict_get collab_scores cid 0) d)
       candidate_set []"

definition recommend_for_student ::
  "SyntheticDataset \<Rightarrow> string \<Rightarrow> int \<Rightarrow> recommendation list option" where
  "recommend_for_student dataset student_id top_n =
     (let completed_courses = dict_get (student_completed_courses dataset) student_id []
      in case filter_opt (\<lambda>cid. prerequisites_met cid completed_courses dataset)
                (candidate_courses completed_courses dataset) of
           None \<Rightarrow> None
         | Some candidate_set \<Rightarrow>
             if candidate_set = [] then Some []
             else
               (case content_profile_from_courses completed_courses dataset of
                  None \<Rightarrow> None
                | Some content_profile \<Rightarrow>
                    (case score_content candidate_set content_profile dataset of
                       None \<Rightarrow> None
                     | Some raw_content \<Rightarrow>
                         let content_scores = normalize_scores raw_content;
                             collab_scores =
                               normalize_scores
                                 (score_collaborative_history student_id candidate_set
                                    completed_courses dataset);
                             combined_scores =
                               combine_scores (6 / 10) (4 / 10) candidate_set
                                 content_scores collab_scores
                         in build_recommendation_payload combined_scores content_scores
                              collab_scores dataset top_n)))"

definition recommend_for_interests ::
  "SyntheticDataset \<Rightarrow> string list \<Rightarrow> int \<Rightarrow> recommendation list option" where
  "recommend_for_interests dataset interest_tags top_n =
     (let cleaned_interests = remdups (filter (\<lambda>tag. tag \<noteq> []) interest_tags);
          candidate_set = candidate_courses [] dataset
      in if candidate_set = [] then Some []
         else
           let content_profile = content_profile_from_interests cleaned_interests
           in case score_content candidate_set content_profile dataset of
                None \<Rightarrow> None
              | Some raw_content \<Rightarrow>
                  let content_scores = normalize_scores raw_content;
                      collab_scores =
                        normalize_scores
                          (score_collaborative_interests candidate_set cleaned_interests
                             dataset);
                      combined_scores =
                        combine_scores (7 / 10) (3 / 10) candidate_set
                          content_scores collab_scores
                  in build_recommendation_payload combined_scores content_scores
                       collab_scores dataset top_n)"

subsection \<open>The score maps of a request\<close>

text \<open>
  The values of the local variables \<^verbatim>\<open>combined_scores\<close>, \<^verbatim>\<open>content_scores\<close> and
  \<^verbatim>\<open>collab_scores\<close> that each entry point hands to \<^verbatim>\<open>_build_recommendation_payload\<close>,
  named so that theorems about the returned records can refer to them. On the early return
  for an empty candidate set the three maps are empty.
\<close>

definition student_completed :: "SyntheticDataset \<Rightarrow> string \<Rightarrow> string list" where
  "student_completed dataset student_id =
     dict_get (student_completed_courses dataset) student_id []"

definition student_candidates :: "SyntheticDataset \<Rightarrow> string \<Rightarrow> string list" where
  "student_candidates dataset student_id =
     filter (\<lambda>cid. prerequisites_met cid (student_completed dataset student_id) dataset = Some True)
       (candidate_courses (student_completed dataset student_id) dataset)"

definition student_score_maps ::
  "SyntheticDataset \<Rightarrow> string \<Rightarrow>
   ((string, rat) dict \<times> (string, rat) dict \<times> (string, rat) dict) option" where
  "student_score_maps dataset student_id =
     (let completed_courses = student_completed dataset student_id
      in case filter_opt (\<lambda>cid. prerequisites_met cid completed_courses dataset)
                (candidate_courses completed_courses dataset) of
           None \<Rightarrow> None
         | Some candidate_set \<Rightarrow>
             if candidate_set = [] then Some ([], [], [])
             else
               (case content_profile_from_courses completed_courses dataset of
                  None \<Rightarrow> None
                | Some content_profile \<Rightarrow>
                    (case score_content candidate_set content_profile dataset of
                       None \<Rightarrow> None
                     | Some raw_content \<Rightarrow>
                         let content_scores = normalize_scores raw_content;
                             collab_scores =
                               normalize_scores
                                 (score_collaborative_history student_id candidate_set
                                    completed_courses dataset)
                         in Some (combine_scores (6 / 10) (4 / 10) candidate_set
                                    content_scores collab_scores,
                                  content_scores, collab_scores))))"

definition cleaned_interests :: "string list \<Rightarrow> string list" where
  "cleaned_interests interest_tags = remdups (filter (\<lambda>tag. tag \<noteq> []) interest_tags)"

definition interest_score_maps ::
  "SyntheticDataset \<Rightarrow> string list \<Rightarrow>
   ((string, rat) dict \<times> (string, rat) dict \<times> (string, rat) dict) option" where
  "interest_score_maps dataset interest_tags =
     (let candidate_set = candidate_courses [] dataset
      in if candidate_set = [] then Some ([], [], [])
         else
           (case score_content candidate_set
                   (content_profile_from_interests (cleaned_interests interest_tags))
                   dataset of
              None \<Rightarrow> None
            | Some raw_content \<Rightarrow>
                let content_scores = normalize_scores raw_content;
                    collab_scores =
                      normalize_scores
                        (score_collaborative_interests candidate_set
                           (cleaned_interests interest_tags) dataset)
                in Some (combine_scores (7 / 10) (3 / 10) candidate_set
                           content_scores collab_scores,
                         content_scores, collab_scores)))"

subsection \<open>Similarity, ranking and explanation in the words of the specification\<close>


text \<open>
  Follows the specification: the Jaccard similarity of two sets is the size of their
  intersection divided by the size of their union.
\<close>

definition jaccard :: "string list \<Rightarrow> string list \<Rightarrow> rat" where
  "jaccard a b = of_nat (card (set a \<inter> set b)) / of_nat (card (set a \<union> set b))"



subsection \<open>A small snapshot\<close>

text \<open>
  Five courses and four students. The completed sets and the collaborative matrix hold the
  same completions, and the skill sets are those of the pipe-separated \<^verbatim>\<open>skills\<close> field of
  each course, as \<^verbatim>\<open>_build_dataset\<close> derives them. The enrollment, preference and
  performance rows, which the engine never reads, are left empty.
\<close>

definition demo_dataset :: SyntheticDataset where
  "demo_dataset =
     \<lparr>courses =
        [(''c1'', [(''course_id'', ''c1''), (''course_code'', ''MAC101''), (''title'', ''Programming''),
                  (''category'', ''core''), (''delivery_mode'', ''online''),
                  (''description'', ''Python basics''), (''prerequisites'', []),
                  (''skills'', ''py|stats''), (''term_patterns'', ''Fall'')]),
         (''c2'', [(''course_id'', ''c2''), (''course_code'', ''MAC102''), (''title'', ''Statistics''),
                  (''category'', ''core''), (''delivery_mode'', ''online''),
                  (''description'', ''Inference''), (''prerequisites'', ''c1''),
                  (''skills'', ''stats|viz''), (''term_patterns'', ''Winter'')]),
         (''c3'', [(''course_id'', ''c3''), (''course_code'', ''MAC201''), (''title'', ''Learning''),
                  (''category'', ''elective''), (''delivery_mode'', ''onsite''),
                  (''description'', ''Models''), (''prerequisites'', ''c1 | c2''),
                  (''skills'', ''ml''), (''term_patterns'', ''Fall'')]),
         (''c4'', [(''course_id'', ''c4''), (''course_code'', ''MAC110''), (''title'', ''Charts''),
                  (''category'', ''elective''), (''delivery_mode'', ''online''),
                  (''description'', ''Plots''), (''prerequisites'', []),
                  (''skills'', ''py|viz''), (''term_patterns'', ''Fall|Winter'')]),
         (''c5'', [(''course_id'', ''c5''), (''course_code'', ''MAC300''), (''title'', ''Capstone''),
                  (''category'', ''core''), (''delivery_mode'', ''onsite''),
                  (''description'', ''Project''), (''prerequisites'', ''c3''),
                  (''skills'', []), (''term_patterns'', [])])],
      students =
        [(''s1'', [(''student_id'', ''s1''), (''interests'', ''py'')]),
         (''s2'', [(''student_id'', ''s2''), (''interests'', ''viz|ml'')]),
         (''s3'', [(''student_id'', ''s3''), (''interests'', ''ml'')]),
         (''s4'', [(''student_id'', ''s4''), (''interests'', ''py|ml'')])],
      enrollments = [],
      preferences = [],
      performance = [],
      student_completed_courses =
        [(''s1'', [''c1'']), (''s2'', [''c1'', ''c2'', ''c4'']), (''s3'', [''c4'']),
         (''s4'', [''c1'', ''c4''])],
      student_interest_tags =
        [(''s1'', [''py'']), (''s2'', [''viz'', ''ml'']), (''s3'', [''ml'']),
         (''s4'', [''py'', ''ml''])],
      course_skill_tags =
        [(''c1'', [''py'', ''stats'']), (''c2'', [''stats'', ''viz'']), (''c3'', [''ml'']),
         (''c4'', [''py'', ''viz'']), (''c5'', [])],
      collaborative_matrix =
        [(''c1'', [''s1'', ''s2'', ''s4'']), (''c2'', [''s2'']), (''c4'', [''s2'', ''s3'', ''s4''])],
      interest_catalog = [''ml'', ''py'', ''viz'']\<rparr>"

text \<open>The records the engine returns on this snapshot, as the theorems below evaluate them.\<close>

definition demo_record_c2 :: recommendation where
  "demo_record_c2 =
     \<lparr>course_id = ''c2'', course_code = Some ''MAC102'', title = Some ''Statistics'',
      category = Some ''core'', delivery_mode = Some ''online'', combined_score = 3 / 5,
      content_score = 1, collab_score = 0, skills = [''stats'', ''viz''],
      description = Some ''Inference'', explanation = ''matches your focus on stats, viz''\<rparr>"

definition demo_record_c4 :: recommendation where
  "demo_record_c4 =
     \<lparr>course_id = ''c4'', course_code = Some ''MAC110'', title = Some ''Charts'',
      category = Some ''elective'', delivery_mode = Some ''online'', combined_score = 2 / 5,
      content_score = 0, collab_score = 1, skills = [''py'', ''viz''],
      description = Some ''Plots'', explanation = ''popular with 3 similar students''\<rparr>"


definition demo_empty_record_c1 :: recommendation where
  "demo_empty_record_c1 =
     \<lparr>course_id = ''c1'', course_code = Some ''MAC101'', title = Some ''Programming'',
      category = Some ''core'', delivery_mode = Some ''online'', combined_score = 7 / 10,
      content_score = 1, collab_score = 0, skills = [''py'', ''stats''],
      description = Some ''Python basics'',
      explanation = ''matches your focus on py, stats''\<rparr>"

section \<open>The engine on the small snapshot\<close>

text \<open>Values of the engine on \<open>demo_dataset\<close>, computed from the code equations.\<close>

lemma demo_categories: "\<forall>row\<in>snd ` set (courses demo_dataset). map_of row ''category'' \<noteq> None"
  by code_simp

lemma demo_student_top1: "recommend_for_student demo_dataset ''s1'' 1 \<noteq> None"
  by code_simp

lemma demo_student_none: "recommend_for_student demo_dataset ''s1'' 0 \<noteq> None"
  by code_simp

lemma demo_interest_top1: "recommend_for_interests demo_dataset [''py'', ''ml''] 1 \<noteq> None"
  by code_simp

lemma demo_student_candidates: "student_candidates demo_dataset ''s1'' = [''c2'', ''c4'']"
  by code_simp

lemma demo_candidates: "candidate_courses [] demo_dataset = [''c1'', ''c2'', ''c3'', ''c4'', ''c5'']"
  by code_simp

lemma demo_student_result:
  "recommend_for_student demo_dataset ''s1'' 6 = Some [demo_record_c2, demo_record_c4]"
  by code_simp


lemma demo_empty_result:
  "recommend_for_interests demo_dataset [] 1 = Some [demo_empty_record_c1]"
  by code_simp

lemma demo_completed: "student_completed demo_dataset ''s1'' = [''c1'']"
  by code_simp

lemma demo_c4_row:
  "map_of (courses demo_dataset) ''c4'' =
     Some [(''course_id'', ''c4''), (''course_code'', ''MAC110''), (''title'', ''Charts''),
           (''category'', ''elective''), (''delivery_mode'', ''online''),
           (''description'', ''Plots''), (''prerequisites'', []),
           (''skills'', ''py|viz''), (''term_patterns'', ''Fall|Winter'')]
   \<and> dict_get [(''course_id'', ''c4''), (''course_code'', ''MAC110''), (''title'', ''Charts''),
           (''category'', ''elective''), (''delivery_mode'', ''online''),
           (''description'', ''Plots''), (''prerequisites'', []),
           (''skills'', ''py|viz''), (''term_patterns'', ''Fall|Winter'')] ''prerequisites'' [] = []"
  by code_simp

lemma demo_c4_in: "''c4'' \<notin> set (student_completed demo_dataset ''s1'')
   \<and> (0::int) \<le> 6 \<and> length (courses demo_dataset) \<le> nat 6"
  by code_simp









lemma demo_sets_distinct: "\<forall>e\<in>set (student_completed_courses demo_dataset). distinct (snd e)"
  by code_simp

lemma demo_collab_sum:
  "(if ''c4'' \<in> set [''c2'', ''c4''] \<and> ''c4'' \<notin> set [''c1'']
    then (\<Sum>e\<leftarrow>student_completed_courses demo_dataset.
            if fst e \<noteq> ''s1'' \<and> set [''c1''] \<inter> set (snd e) \<noteq> {} \<and> ''c4'' \<in> set (snd e)
            then jaccard [''c1''] (snd e) else 0)
    else 0) = 5 / 6"
  by code_simp

lemma demo_unknown: "map_of (student_completed_courses demo_dataset) ''zz'' = None"
  by code_simp

lemma demo_unknown_candidates: "student_candidates demo_dataset ''zz'' = [''c1'', ''c4'']"
  by code_simp

lemma demo_unknown_rows:
  "map_of (courses demo_dataset) ''c1'' \<noteq> None
   \<and> map_of (the (map_of (courses demo_dataset) ''c1'')) ''category'' \<noteq> None
   \<and> map_of (courses demo_dataset) ''c4'' \<noteq> None
   \<and> map_of (the (map_of (courses demo_dataset) ''c4'')) ''category'' \<noteq> None"
  by code_simp

lemma demo_unknown_categories:
  "\<forall>cid\<in>set (student_candidates demo_dataset ''zz''). \<exists>course cat.
     map_of (courses demo_dataset) cid = Some course \<and> map_of course ''category'' = Some cat"
  unfolding demo_unknown_candidates using demo_unknown_rows by auto

section \<open>Normalizer: flat and spread maps\<close>

lemma values_flat_iff:
  assumes "scores \<noteq> []"
  shows "(Max (set (map snd scores)) = Min (set (map snd scores)))
         \<longleftrightarrow> (\<forall>a\<in>set scores. \<forall>b\<in>set scores. snd a = snd b)"
proof
  let ?V = "set (map snd scores)"
  have fin: "finite ?V" and ne: "?V \<noteq> {}" using assms by auto
  assume eq: "Max ?V = Min ?V"
  show "\<forall>a\<in>set scores. \<forall>b\<in>set scores. snd a = snd b"
  proof (intro ballI)
    fix a b assume "a \<in> set scores" "b \<in> set scores"
    then have "snd a \<in> ?V" "snd b \<in> ?V" by auto
    then have "Min ?V \<le> snd a" "snd a \<le> Max ?V" "Min ?V \<le> snd b" "snd b \<le> Max ?V"
      using fin by auto
    with eq have "snd a = Min ?V" "snd b = Min ?V" by (simp_all add: order.antisym)
    then show "snd a = snd b" by simp
  qed
next
  let ?V = "set (map snd scores)"
  have fin: "finite ?V" and ne: "?V \<noteq> {}" using assms by auto
  assume flat: "\<forall>a\<in>set scores. \<forall>b\<in>set scores. snd a = snd b"
  have "Max ?V \<in> ?V" "Min ?V \<in> ?V" using fin ne by (auto intro: Max_in Min_in)
  then obtain a b where ab: "a \<in> set scores" "snd a = Max ?V" "b \<in> set scores" "snd b = Min ?V"
    by auto
  from flat ab(1) have "\<forall>b\<in>set scores. snd a = snd b" by (rule bspec)
  from this ab(3) have "snd a = snd b" by (rule bspec)
  with ab show "Max ?V = Min ?V" by simp
qed

lemma normalize_scores_range:
  assumes "(k, v) \<in> set (normalize_scores scores)"
  shows "0 \<le> v \<and> v \<le> 1"
proof (cases "scores = []")
  case True
  with assms show ?thesis by (simp add: normalize_scores_def)
next
  case False
  let ?V = "set (map snd scores)"
  have fin: "finite ?V" by simp
  show ?thesis
  proof (cases "Max ?V = Min ?V")
    case True
    with False assms show ?thesis by (auto simp: normalize_scores_def)
  next
    case ne: False
    from False ne assms obtain w where w: "(k, w) \<in> set scores"
      and v: "v = (w - Min ?V) / (Max ?V - Min ?V)"
      by (auto simp: normalize_scores_def Let_def)
    from w have "w \<in> ?V" by force
    then have "Min ?V \<le> w" "w \<le> Max ?V" using fin by auto
    moreover from this ne have "Min ?V < Max ?V" by linarith
    ultimately show ?thesis unfolding v by (simp add: divide_le_eq)
  qed
qed

lemma normalize_scores_flat:
  assumes ne: "scores \<noteq> []"
    and flat: "\<forall>a\<in>set scores. \<forall>b\<in>set scores. snd a = snd b"
  shows "normalize_scores scores = map (\<lambda>(k, v). (k, 1)) scores"
proof -
  have "Max (set (map snd scores)) = Min (set (map snd scores))"
    by (rule iffD2 [OF values_flat_iff [OF ne] flat])
  with ne show ?thesis
    unfolding normalize_scores_def by simp
qed

lemma normalize_scores_spread:
  assumes nf: "\<not> (\<forall>a\<in>set scores. \<forall>b\<in>set scores. snd a = snd b)"
  shows "normalize_scores scores =
           map (\<lambda>(k, v). (k, (v - Min (snd ` set scores))
                               / (Max (snd ` set scores) - Min (snd ` set scores)))) scores"
proof -
  from nf have ne: "scores \<noteq> []" by auto
  have "Max (set (map snd scores)) \<noteq> Min (set (map snd scores))"
    using nf iffD1 [OF values_flat_iff [OF ne]] by (rule contrapos_nn)
  with ne show ?thesis
    unfolding normalize_scores_def by (simp add: Let_def)
qed

section \<open>Loops that may raise\<close>

lemma filter_opt_total:
  "\<forall>x\<in>set xs. p x \<noteq> None \<Longrightarrow> filter_opt p xs = Some (filter (\<lambda>x. p x = Some True) xs)"
  by (induction xs) (auto split: option.splits)

lemma filter_opt_Some:
  "filter_opt p xs = Some ys \<Longrightarrow> ys = filter (\<lambda>x. p x = Some True) xs"
  by (induction xs arbitrary: ys) (auto split: option.splits if_splits)

lemma map_opt_Some:
  "map_opt f xs = Some ys \<Longrightarrow> map f xs = map Some ys"
  by (induction xs arbitrary: ys) (auto split: option.splits)

lemma map_opt_total:
  "\<forall>x\<in>set xs. f x \<noteq> None \<Longrightarrow> map_opt f xs = Some (map (\<lambda>x. the (f x)) xs)"
  by (induction xs) (auto split: option.splits)

section \<open>Dictionaries\<close>

lemma update_fresh: "k \<notin> fst ` set al \<Longrightarrow> AList.update k v al = al @ [(k, v)]"
  by (induction al) auto

lemma fold_update_distinct:
  "distinct xs \<Longrightarrow> set xs \<inter> fst ` set acc = {} \<Longrightarrow>
   fold (\<lambda>k d. AList.update k (g k) d) xs acc = acc @ map (\<lambda>k. (k, g k)) xs"
proof (induction xs arbitrary: acc)
  case Nil
  then show ?case by simp
next
  case (Cons x xs)
  from Cons.prems have fresh: "x \<notin> fst ` set acc" by auto
  have "fold (\<lambda>k d. AList.update k (g k) d) xs (acc @ [(x, g x)])
        = (acc @ [(x, g x)]) @ map (\<lambda>k. (k, g k)) xs"
    using Cons.prems by (intro Cons.IH) auto
  then show ?case by (simp add: update_fresh [OF fresh])
qed

lemma combine_scores_map:
  "distinct cands \<Longrightarrow>
   combine_scores w1 w2 cands content collab =
   map (\<lambda>cid. (cid, w1 * dict_get content cid 0 + w2 * dict_get collab cid 0)) cands"
  unfolding combine_scores_def by (simp add: fold_update_distinct)

lemma fold_opt_update_distinct:
  "distinct xs \<Longrightarrow> set xs \<inter> fst ` set acc = {} \<Longrightarrow>
   fold_opt (\<lambda>k d. map_option (\<lambda>s. AList.update k s d) (g k)) xs acc = Some res \<Longrightarrow>
   map g xs = map Some (map snd (drop (length acc) res)) \<and> res = acc @ map (\<lambda>k. (k, the (g k))) xs"
proof (induction xs arbitrary: acc)
  case Nil
  then show ?case by simp
next
  case (Cons x xs)
  from Cons.prems(2) have fresh: "x \<notin> fst ` set acc" by auto
  from Cons.prems(3) obtain s where s: "g x = Some s"
    and rest: "fold_opt (\<lambda>k d. map_option (\<lambda>s. AList.update k s d) (g k)) xs (acc @ [(x, s)]) = Some res"
    by (auto simp: update_fresh [OF fresh] split: option.splits)
  have "map g xs = map Some (map snd (drop (length (acc @ [(x, s)])) res))
        \<and> res = (acc @ [(x, s)]) @ map (\<lambda>k. (k, the (g k))) xs"
    using Cons.prems(1,2) by (intro Cons.IH [OF _ _ rest]) auto
  then show ?case using s by (auto simp: drop_Suc_Cons)
qed

lemma score_content_Some:
  assumes "distinct cands" and "score_content cands profile ds = Some raw"
  shows "raw = map (\<lambda>cid. (cid, the (score_course ds profile cid))) cands"
    and "\<forall>cid\<in>set cands. score_course ds profile cid \<noteq> None"
proof -
  from fold_opt_update_distinct [of cands "[]" "score_course ds profile" raw] assms
  have m: "map (score_course ds profile) cands = map Some (map snd raw)"
    and r: "raw = map (\<lambda>k. (k, the (score_course ds profile k))) cands"
    by (simp_all add: score_content_def)
  show "raw = map (\<lambda>cid. (cid, the (score_course ds profile cid))) cands" by (rule r)
  show "\<forall>cid\<in>set cands. score_course ds profile cid \<noteq> None"
  proof
    fix cid assume "cid \<in> set cands"
    then have "score_course ds profile cid \<in> set (map (score_course ds profile) cands)" by simp
    then show "score_course ds profile cid \<noteq> None" unfolding m by auto
  qed
qed

lemma fold_opt_total:
  "\<forall>x\<in>set xs. \<forall>s. f x s \<noteq> None \<Longrightarrow> fold_opt f xs s \<noteq> None"
  by (induction xs arbitrary: s) (auto split: option.splits)

lemma score_content_total:
  "\<forall>cid\<in>set cands. score_course ds profile cid \<noteq> None \<Longrightarrow> score_content cands profile ds \<noteq> None"
  unfolding score_content_def by (rule fold_opt_total) auto

section \<open>The entry points through their score maps\<close>

lemma build_payload_empty: "build_recommendation_payload [] ct cl ds n = Some []"
  by (simp add: build_recommendation_payload_def py_slice_to_def)

lemma recommend_for_student_factor:
  "recommend_for_student ds sid n =
     (case student_score_maps ds sid of
        None \<Rightarrow> None
      | Some (cb, ct, cl) \<Rightarrow> build_recommendation_payload cb ct cl ds n)"
  unfolding recommend_for_student_def student_score_maps_def student_completed_def
  by (simp add: Let_def build_payload_empty split: option.splits)

lemma recommend_for_interests_factor:
  "recommend_for_interests ds tags n =
     (case interest_score_maps ds tags of
        None \<Rightarrow> None
      | Some (cb, ct, cl) \<Rightarrow> build_recommendation_payload cb ct cl ds n)"
  unfolding recommend_for_interests_def interest_score_maps_def cleaned_interests_def
  by (simp add: Let_def build_payload_empty split: option.splits)

section \<open>Candidates\<close>

lemma prerequisites_met_defined:
  "cid \<in> fst ` set (courses ds) \<Longrightarrow> prerequisites_met cid completed ds \<noteq> None"
  unfolding prerequisites_met_def
  by (auto simp: map_of_eq_None_iff Let_def split: option.splits)

lemma candidate_courses_set:
  "set (candidate_courses completed ds) = fst ` set (courses ds) - set completed"
  unfolding candidate_courses_def by auto

lemma candidate_courses_distinct: "distinct (candidate_courses completed ds)"
  unfolding candidate_courses_def by simp

lemma student_filter_opt:
  "filter_opt (\<lambda>cid. prerequisites_met cid (student_completed ds sid) ds)
     (candidate_courses (student_completed ds sid) ds) = Some (student_candidates ds sid)"
  unfolding student_candidates_def
  by (rule filter_opt_total) (simp add: candidate_courses_set prerequisites_met_defined)

lemma student_candidates_distinct: "distinct (student_candidates ds sid)"
  unfolding student_candidates_def by (simp add: candidate_courses_distinct)

lemma student_candidates_set:
  "set (student_candidates ds sid) =
     {cid \<in> fst ` set (courses ds). cid \<notin> set (student_completed ds sid)
        \<and> prerequisites_met cid (student_completed ds sid) ds = Some True}"
  unfolding student_candidates_def by (auto simp: candidate_courses_set)

section \<open>Score maps\<close>

lemma normalize_scores_unit: "\<forall>(k, v)\<in>set (normalize_scores scores). 0 \<le> v \<and> v \<le> 1"
  using normalize_scores_range by fast


lemma student_score_maps_Some:
  assumes "student_score_maps ds sid = Some (cb, ct, cl)"
  shows "cb = map (\<lambda>cid. (cid, 6 / 10 * dict_get ct cid 0 + 4 / 10 * dict_get cl cid 0))
                (student_candidates ds sid)"
    and "\<forall>(k, v)\<in>set ct. 0 \<le> v \<and> v \<le> 1"
    and "\<forall>(k, v)\<in>set cl. 0 \<le> v \<and> v \<le> 1"
proof -
  show "cb = map (\<lambda>cid. (cid, 6 / 10 * dict_get ct cid 0 + 4 / 10 * dict_get cl cid 0))
                (student_candidates ds sid)"
    using assms unfolding student_score_maps_def
    by (auto simp: Let_def student_filter_opt combine_scores_map student_candidates_distinct
             split: option.splits if_splits)
  show "\<forall>(k, v)\<in>set ct. 0 \<le> v \<and> v \<le> 1"
    using assms unfolding student_score_maps_def
    by (auto simp: Let_def student_filter_opt split: option.splits if_splits
             dest: normalize_scores_range)
  show "\<forall>(k, v)\<in>set cl. 0 \<le> v \<and> v \<le> 1"
    using assms unfolding student_score_maps_def
    by (auto simp: Let_def student_filter_opt split: option.splits if_splits
             dest: normalize_scores_range)
qed

lemma interest_score_maps_Some:
  assumes "interest_score_maps ds tags = Some (cb, ct, cl)"
  shows "cb = map (\<lambda>cid. (cid, 7 / 10 * dict_get ct cid 0 + 3 / 10 * dict_get cl cid 0))
                (candidate_courses [] ds)"
    and "\<forall>(k, v)\<in>set ct. 0 \<le> v \<and> v \<le> 1"
    and "\<forall>(k, v)\<in>set cl. 0 \<le> v \<and> v \<le> 1"
proof -
  show "cb = map (\<lambda>cid. (cid, 7 / 10 * dict_get ct cid 0 + 3 / 10 * dict_get cl cid 0))
                (candidate_courses [] ds)"
    using assms unfolding interest_score_maps_def
    by (auto simp: Let_def combine_scores_map candidate_courses_distinct
             split: option.splits if_splits)
  show "\<forall>(k, v)\<in>set ct. 0 \<le> v \<and> v \<le> 1"
    using assms unfolding interest_score_maps_def
    by (auto simp: Let_def split: option.splits if_splits dest: normalize_scores_range)
  show "\<forall>(k, v)\<in>set cl. 0 \<le> v \<and> v \<le> 1"
    using assms unfolding interest_score_maps_def
    by (auto simp: Let_def split: option.splits if_splits dest: normalize_scores_range)
qed

section \<open>Payload\<close>

lemma py_slice_to_subset: "set (py_slice_to n xs) \<subseteq> set xs"
  unfolding py_slice_to_def by (auto dest: in_set_takeD)

lemma py_slice_to_length_nonneg: "0 \<le> n \<Longrightarrow> length (py_slice_to n xs) = min (nat n) (length xs)"
  unfolding py_slice_to_def by simp

lemma payload_record_fields:
  assumes "payload_record ct cl ds item = Some r"
  shows "course_id r = fst item"
    and "combined_score r = py_round3 (snd item)"
    and "content_score r = py_round3 (dict_get ct (fst item) 0)"
    and "collab_score r = py_round3 (dict_get cl (fst item) 0)"
    and "skills r = sort (dict_get (course_skill_tags ds) (fst item) [])"
    and "explanation r = build_explanation (fst item) (dict_get ct (fst item) 0)
           (dict_get cl (fst item) 0) (sort (dict_get (course_skill_tags ds) (fst item) [])) ds"
    and "fst item \<in> fst ` set (courses ds)"
  using assms unfolding payload_record_def
  by (auto simp: Let_def split: option.splits dest: map_of_SomeD intro: rev_image_eqI)

lemma payload_record_defined:
  "fst item \<in> fst ` set (courses ds) \<Longrightarrow> payload_record ct cl ds item \<noteq> None"
  unfolding payload_record_def
  by (auto simp: Let_def map_of_eq_None_iff split: option.splits)

lemma build_payload_Some:
  assumes "build_recommendation_payload cb ct cl ds n = Some rs"
  shows "map (payload_record ct cl ds) (py_slice_to n (sort_key rank_key cb)) = map Some rs"
  using assms unfolding build_recommendation_payload_def
  by (simp add: Let_def map_opt_Some)

lemma build_payload_ids:
  assumes "build_recommendation_payload cb ct cl ds n = Some rs"
  shows "map course_id rs = map fst (py_slice_to n (sort_key rank_key cb))"
proof -
  let ?ranked = "py_slice_to n (sort_key rank_key cb)"
  have m: "map (payload_record ct cl ds) ?ranked = map Some rs"
    by (rule build_payload_Some [OF assms])
  then have len: "length rs = length ?ranked" by (metis length_map)
  show ?thesis
  proof (rule nth_equalityI)
    show "length (map course_id rs) = length (map fst ?ranked)" using len by simp
  next
    fix i assume "i < length (map course_id rs)"
    then have i: "i < length rs" "i < length ?ranked" using len by simp_all
    from m have "map (payload_record ct cl ds) ?ranked ! i = map Some rs ! i" by simp
    with i have "payload_record ct cl ds (?ranked ! i) = Some (rs ! i)" by simp
    then have "course_id (rs ! i) = fst (?ranked ! i)" by (rule payload_record_fields(1))
    with i show "map course_id rs ! i = map fst ?ranked ! i" by simp
  qed
qed

lemma build_payload_length:
  assumes "build_recommendation_payload cb ct cl ds n = Some rs"
  shows "length rs = length (py_slice_to n (sort_key rank_key cb))"
  using build_payload_ids [OF assms] by (metis length_map)

lemma build_payload_member:
  assumes "build_recommendation_payload cb ct cl ds n = Some rs" and "r \<in> set rs"
  shows "\<exists>item\<in>set cb. payload_record ct cl ds item = Some r"
proof -
  let ?ranked = "py_slice_to n (sort_key rank_key cb)"
  have m: "map (payload_record ct cl ds) ?ranked = map Some rs"
    by (rule build_payload_Some [OF assms(1)])
  from assms(2) have "Some r \<in> set (map Some rs)" by simp
  then have "Some r \<in> set (map (payload_record ct cl ds) ?ranked)" unfolding m .
  then obtain item where "item \<in> set ?ranked" "payload_record ct cl ds item = Some r" by auto
  moreover have "set ?ranked \<subseteq> set cb" using py_slice_to_subset [of n "sort_key rank_key cb"] by simp
  ultimately show ?thesis by auto
qed

lemma build_payload_total:
  assumes "fst ` set cb \<subseteq> fst ` set (courses ds)"
  shows "build_recommendation_payload cb ct cl ds n \<noteq> None"
proof -
  have sub: "set (py_slice_to n (sort_key rank_key cb)) \<subseteq> set cb"
    using py_slice_to_subset [of n "sort_key rank_key cb"] by simp
  have "\<forall>item\<in>set (py_slice_to n (sort_key rank_key cb)). payload_record ct cl ds item \<noteq> None"
  proof
    fix item assume "item \<in> set (py_slice_to n (sort_key rank_key cb))"
    with sub have "item \<in> set cb" by (rule subsetD)
    then have "fst item \<in> fst ` set cb" by (rule imageI)
    with assms have "fst item \<in> fst ` set (courses ds)" by (rule subsetD)
    then show "payload_record ct cl ds item \<noteq> None" by (rule payload_record_defined)
  qed
  then show ?thesis unfolding build_recommendation_payload_def
    by (simp add: Let_def map_opt_total)
qed

lemma recommend_for_student_maps:
  assumes "recommend_for_student ds sid n = Some rs"
  obtains cb ct cl where "student_score_maps ds sid = Some (cb, ct, cl)"
    and "build_recommendation_payload cb ct cl ds n = Some rs"
  using assms unfolding recommend_for_student_factor
  by (auto split: option.splits)

lemma recommend_for_interests_maps:
  assumes "recommend_for_interests ds tags n = Some rs"
  obtains cb ct cl where "interest_score_maps ds tags = Some (cb, ct, cl)"
    and "build_recommendation_payload cb ct cl ds n = Some rs"
  using assms unfolding recommend_for_interests_factor
  by (auto split: option.splits)

lemma distinct_fst_sort_key:
  assumes "distinct (map fst xs)"
  shows "distinct (map fst (sort_key f xs))"
proof -
  have "card (set (map fst (sort_key f xs))) = card (set (map fst xs))" by simp
  also have "\<dots> = length (map fst xs)" using assms by (rule distinct_card)
  also have "\<dots> = length (map fst (sort_key f xs))" by simp
  finally show ?thesis by (rule card_distinct)
qed

text \<open>What the payload keeps of a map with one entry per candidate.\<close>

lemma ranked_ids:
  assumes cb: "cb = map (\<lambda>cid. (cid, g cid)) cands" and d: "distinct cands"
    and p: "build_recommendation_payload cb ct cl ds n = Some rs"
  shows "distinct (map course_id rs)"
    and "course_id ` set rs \<subseteq> set cands"
    and "0 \<le> n \<Longrightarrow> length rs = min (nat n) (length cands)"
    and "0 \<le> n \<Longrightarrow> length cands \<le> nat n \<Longrightarrow> course_id ` set rs = set cands"
proof -
  have fst_cb: "map fst cb = cands" unfolding cb by (simp add: comp_def)
  have ids: "map course_id rs = map fst (py_slice_to n (sort_key rank_key cb))"
    by (rule build_payload_ids [OF p])
  have ds: "distinct (map fst (sort_key rank_key cb))"
    by (rule distinct_fst_sort_key) (simp add: fst_cb d)
  show "distinct (map course_id rs)"
    unfolding ids py_slice_to_def using ds by (simp add: take_map [symmetric])
  have "set (map course_id rs) \<subseteq> fst ` set cb"
    unfolding ids using py_slice_to_subset [of n "sort_key rank_key cb"] by auto
  also have "fst ` set cb = set cands" using fst_cb by (metis set_map)
  finally show "course_id ` set rs \<subseteq> set cands" by simp
  {
    assume n: "0 \<le> n"
    have "length rs = length (py_slice_to n (sort_key rank_key cb))"
      by (rule build_payload_length [OF p])
    also have "\<dots> = min (nat n) (length cb)" using n by (simp add: py_slice_to_length_nonneg)
    also have "length cb = length cands" unfolding cb by simp
    finally show "length rs = min (nat n) (length cands)" .
  }
  {
    assume n: "0 \<le> n" and all: "length cands \<le> nat n"
    have "length cb = length cands" unfolding cb by simp
    with n all have "py_slice_to n (sort_key rank_key cb) = sort_key rank_key cb"
      by (simp add: py_slice_to_def)
    then have "set (map course_id rs) = fst ` set cb" unfolding ids by simp
    also have "fst ` set cb = set cands" using fst_cb by (metis set_map)
    finally show "course_id ` set rs = set cands" by simp
  }
qed

lemma record_of_maps:
  assumes cb: "cb = map (\<lambda>cid. (cid, g cid)) cands"
    and p: "build_recommendation_payload cb ct cl ds n = Some rs"
    and r: "r \<in> set rs"
  shows "course_id r \<in> set cands"
    and "payload_record ct cl ds (course_id r, g (course_id r)) = Some r"
proof -
  from build_payload_member [OF p r] obtain item
    where item: "item \<in> set cb" and rec: "payload_record ct cl ds item = Some r" by blast
  from item obtain cid where cid: "cid \<in> set cands" and it: "item = (cid, g cid)"
    unfolding cb by auto
  have "course_id r = fst item" by (rule payload_record_fields(1) [OF rec])
  then have id: "course_id r = cid" by (simp add: it)
  show "course_id r \<in> set cands" using cid id by simp
  show "payload_record ct cl ds (course_id r, g (course_id r)) = Some r"
    using rec by (simp add: it id)
qed

section \<open>Rounding and blending\<close>



section \<open>Prerequisite gate\<close>

lemma split_to_set_empty: "split_to_set [] = []"
  by (simp add: split_to_set_def py_strip_def)

lemma prerequisites_met_True:
  assumes "prerequisites_met cid completed ds = Some True"
  shows "\<exists>course. map_of (courses ds) cid = Some course
           \<and> set (split_to_set (dict_get course ''prerequisites'' [])) \<subseteq> set completed"
  using assms unfolding prerequisites_met_def
  by (auto simp: Let_def split_to_set_empty split: option.splits if_splits)

lemma prerequisites_met_undeclared:
  assumes "map_of (courses ds) cid = Some course"
    and "dict_get course ''prerequisites'' [] = []"
  shows "prerequisites_met cid completed ds = Some True"
  using assms unfolding prerequisites_met_def by (simp add: Let_def)

section \<open>No KeyError on a snapshot whose course rows carry a category\<close>

lemma categories_score_course:
  assumes cat: "\<forall>row\<in>snd ` set (courses ds). map_of row ''category'' \<noteq> None"
    and cid: "cid \<in> fst ` set (courses ds)"
  shows "score_course ds profile cid \<noteq> None"
proof -
  from cid have "map_of (courses ds) cid \<noteq> None" by (simp add: map_of_eq_None_iff)
  then obtain course where c: "map_of (courses ds) cid = Some course" by blast
  then have "(cid, course) \<in> set (courses ds)" by (rule map_of_SomeD)
  then have "course \<in> snd ` set (courses ds)" by force
  with cat have "map_of course ''category'' \<noteq> None" by blast
  with c show ?thesis by (auto simp: score_course_def Let_def)
qed

lemma categories_profile_add_course:
  assumes cat: "\<forall>row\<in>snd ` set (courses ds). map_of row ''category'' \<noteq> None"
  shows "profile_add_course ds cid p \<noteq> None"
proof (cases "map_of (courses ds) cid")
  case None
  then show ?thesis by (simp add: profile_add_course_def Let_def)
next
  case (Some course)
  then have "(cid, course) \<in> set (courses ds)" by (rule map_of_SomeD)
  then have "course \<in> snd ` set (courses ds)" by force
  with cat have "map_of course ''category'' \<noteq> None" by blast
  with Some show ?thesis by (auto simp: profile_add_course_def Let_def)
qed

lemma recommend_for_interests_total:
  assumes cat: "\<forall>row\<in>snd ` set (courses ds). map_of row ''category'' \<noteq> None"
  shows "recommend_for_interests ds tags n \<noteq> None"
proof -
  let ?cands = "candidate_courses [] ds"
  have "\<forall>cid\<in>set ?cands. score_course ds (content_profile_from_interests (cleaned_interests tags)) cid \<noteq> None"
    using categories_score_course [OF cat] by (simp add: candidate_courses_set)
  then obtain raw where raw: "score_content ?cands
      (content_profile_from_interests (cleaned_interests tags)) ds = Some raw"
    using score_content_total by blast
  then have "\<exists>x. interest_score_maps ds tags = Some x"
    unfolding interest_score_maps_def by (simp add: Let_def)
  then obtain cb ct cl where m: "interest_score_maps ds tags = Some (cb, ct, cl)"
    by (metis prod_cases3)
  have "fst ` set cb = set ?cands"
    unfolding interest_score_maps_Some(1) [OF m] by (simp add: image_comp comp_def)
  then have "fst ` set cb \<subseteq> fst ` set (courses ds)" by (auto simp: candidate_courses_set)
  then have "build_recommendation_payload cb ct cl ds n \<noteq> None" by (rule build_payload_total)
  then show ?thesis unfolding recommend_for_interests_factor m by simp
qed

lemma recommend_for_student_total:
  assumes cat: "\<forall>row\<in>snd ` set (courses ds). map_of row ''category'' \<noteq> None"
  shows "recommend_for_student ds sid n \<noteq> None"
proof -
  let ?cands = "student_candidates ds sid"
  have "content_profile_from_courses (student_completed ds sid) ds \<noteq> None"
    unfolding content_profile_from_courses_def
    by (rule fold_opt_total) (simp add: categories_profile_add_course [OF cat])
  then obtain profile where p: "content_profile_from_courses (student_completed ds sid) ds = Some profile"
    by blast
  have "\<forall>cid\<in>set ?cands. score_course ds profile cid \<noteq> None"
    using categories_score_course [OF cat] by (simp add: student_candidates_set)
  then obtain raw where raw: "score_content ?cands profile ds = Some raw"
    using score_content_total by blast
  from p raw have "\<exists>x. student_score_maps ds sid = Some x"
    unfolding student_score_maps_def by (simp add: Let_def student_filter_opt)
  then obtain cb ct cl where m: "student_score_maps ds sid = Some (cb, ct, cl)"
    by (metis prod_cases3)
  have "fst ` set cb = set ?cands"
    unfolding student_score_maps_Some(1) [OF m] by (simp add: image_comp comp_def)
  also have "\<dots> \<subseteq> fst ` set (courses ds)"
    unfolding student_candidates_set by (rule Collect_restrict)
  finally have "build_recommendation_payload cb ct cl ds n \<noteq> None" by (rule build_payload_total)
  then show ?thesis unfolding recommend_for_student_factor m by simp
qed

section \<open>Interest mode on an empty tag list\<close>

lemma fold_unchanged: "(\<And>x s. f x s = s) \<Longrightarrow> fold f xs s = s"
  by (induction xs arbitrary: s) simp_all

lemma score_course_empty_profile:
  assumes "score_course ds [] cid = Some v"
  shows "v = 0"
proof -
  have a: "fold (\<lambda>skill (s::rat). s + dict_get [] skill 0) xs s = s" for xs :: "string list" and s
    by (rule fold_unchanged) (simp add: dict_get_def)
  have b: "fold (\<lambda>term (s::rat). s + (1 / 10) * dict_get [] (''term::'' @ py_lower term) 0) xs s = s"
    for xs s
    by (rule fold_unchanged) (simp add: dict_get_def)
  have c: "dict_get [] k (0::rat) = 0" for k :: string by (simp add: dict_get_def)
  from assms show ?thesis
    unfolding score_course_def a b
    by (auto simp: c Let_def split: option.splits)
qed

lemma empty_interest_maps:
  assumes "interest_score_maps ds [] = Some (cb, ct, cl)"
  shows "ct = map (\<lambda>cid. (cid, 1)) (candidate_courses [] ds)" and "cl = []"
proof -
  let ?cands = "candidate_courses [] ds"
  show "cl = []"
    using assms unfolding interest_score_maps_def
    by (auto simp: Let_def cleaned_interests_def score_collaborative_interests_def
          normalize_scores_def split: if_splits option.splits)
  show "ct = map (\<lambda>cid. (cid, 1)) ?cands"
  proof (cases "?cands = []")
    case True
    with assms show ?thesis unfolding interest_score_maps_def by (simp add: Let_def)
  next
    case False
    with assms obtain raw where raw: "score_content ?cands [] ds = Some raw"
      and ct: "ct = normalize_scores raw"
      unfolding interest_score_maps_def
      by (auto simp: Let_def cleaned_interests_def content_profile_from_interests_def
            split: option.splits)
    note sc = score_content_Some [OF candidate_courses_distinct raw]
    have "raw = map (\<lambda>cid. (cid, 0)) ?cands"
      unfolding sc(1)
    proof (rule map_cong [OF refl])
      fix cid assume "cid \<in> set ?cands"
      with sc(2) obtain v where v: "score_course ds [] cid = Some v" by auto
      then have "v = 0" by (rule score_course_empty_profile)
      with v show "(cid, the (score_course ds [] cid)) = (cid, 0)" by simp
    qed
    then have raw0: "raw = map (\<lambda>cid. (cid, 0)) ?cands" .
    have ne: "raw \<noteq> []" using False raw0 by simp
    have flat: "\<forall>a\<in>set raw. \<forall>b\<in>set raw. snd a = snd b" unfolding raw0 by auto
    have "normalize_scores raw = map (\<lambda>(k, v). (k, 1)) raw"
      by (rule normalize_scores_flat [OF ne flat])
    then show ?thesis unfolding ct raw0 by (simp add: comp_def)
  qed
qed

lemma py_round3_0: "py_round3 0 = 0" by (simp add: py_round3_def)

lemma py_round3_1: "py_round3 1 = 1" by (simp add: py_round3_def)

lemma dict_get_const_map: "k \<in> set xs \<Longrightarrow> dict_get (map (\<lambda>cid. (cid, c)) xs) k d = c"
  by (induction xs) (auto simp: dict_get_def)

section \<open>Ranking\<close>

















section \<open>Profile of interest mode\<close>

lemma dict_get_counter_add:
  "dict_get (counter_add k w d) c 0 = (if c = k then dict_get d k 0 + w else dict_get d c 0)"
  unfolding counter_add_def dict_get_def by (simp add: update_conv')

lemma profile_fold_count:
  "dict_get (fold (\<lambda>interest p. counter_add interest 1 p) xs acc) t 0
     = dict_get acc t 0 + of_nat (count_list xs t)"
  by (induction xs arbitrary: acc) (simp_all add: dict_get_counter_add)

lemma count_list_distinct:
  "distinct xs \<Longrightarrow> count_list xs t = (if t \<in> set xs then 1 else 0)"
  by (induction xs) auto

lemma cleaned_interests_set:
  "set (cleaned_interests tags) = {t \<in> set tags. t \<noteq> []}"
  unfolding cleaned_interests_def by auto

lemma recommend_for_interests_cleaned:
  "cleaned_interests tags = cleaned_interests tags' \<Longrightarrow>
   recommend_for_interests ds tags n = recommend_for_interests ds tags' n"
  unfolding recommend_for_interests_def cleaned_interests_def by simp

section \<open>Collaborative score, history variant\<close>

lemma collab_inner_loop:
  assumes "distinct oc"
  shows "dict_get (fold (\<lambda>cid acc. if cid \<in> set completed \<or> cid \<notin> set cands then acc
                                   else counter_add cid sim acc) oc acc) c 0
         = dict_get acc c 0
           + (if c \<in> set oc \<and> c \<notin> set completed \<and> c \<in> set cands then sim else 0)"
  using assms
proof (induction oc arbitrary: acc)
  case Nil
  then show ?case by simp
next
  case (Cons x xs)
  then have nx: "x \<notin> set xs" and dx: "distinct xs" by simp_all
  show ?case
    using nx by (auto simp: Cons.IH [OF dx] dict_get_counter_add)
qed

lemma collab_history_step_get:
  assumes "distinct (snd e)"
  shows "dict_get (collab_history_step sid cands completed e acc) c 0
         = dict_get acc c 0
           + (if fst e \<noteq> sid \<and> set completed \<inter> set (snd e) \<noteq> {} \<and> c \<in> set (snd e)
                 \<and> c \<in> set cands \<and> c \<notin> set completed
              then jaccard completed (snd e) else 0)"
proof (cases "fst e \<noteq> sid \<and> set completed \<inter> set (snd e) \<noteq> {}")
  case False
  then show ?thesis
    unfolding collab_history_step_def by (auto simp: Let_def)
next
  case True
  then have i: "0 < card (set completed \<inter> set (snd e))" by (simp add: card_gt_0_iff)
  have "set completed \<union> set (snd e) \<noteq> {}" using True by auto
  then have u: "0 < card (set completed \<union> set (snd e))" by (simp add: card_gt_0_iff)
  have pos: "\<not> (rat_of_nat (card (set completed \<inter> set (snd e)))
                 / rat_of_nat (card (set completed \<union> set (snd e))) \<le> 0)"
    using i u by (simp add: not_le)
  have "collab_history_step sid cands completed e acc
        = fold (\<lambda>cid acc. if cid \<in> set completed \<or> cid \<notin> set cands then acc
                           else counter_add cid (jaccard completed (snd e)) acc) (snd e) acc"
    using True i u unfolding collab_history_step_def jaccard_def Let_def
    by (simp only: pos if_False) simp
  then show ?thesis using True by (simp add: collab_inner_loop [OF assms])
qed

lemma collab_history_fold_get:
  assumes "\<forall>e\<in>set es. distinct (snd e)"
  shows "dict_get (fold (collab_history_step sid cands completed) es acc) c 0
         = dict_get acc c 0
           + (\<Sum>e\<leftarrow>es. if fst e \<noteq> sid \<and> set completed \<inter> set (snd e) \<noteq> {} \<and> c \<in> set (snd e)
                           \<and> c \<in> set cands \<and> c \<notin> set completed
                        then jaccard completed (snd e) else 0)"
  using assms
proof (induction es arbitrary: acc)
  case Nil
  then show ?case by simp
next
  case (Cons e es)
  then have de: "distinct (snd e)" and des: "\<forall>e\<in>set es. distinct (snd e)" by simp_all
  show ?case
    by (simp add: Cons.IH [OF des] collab_history_step_get [OF de] add.assoc)
qed

lemma sum_list_gate:
  "(\<Sum>e\<leftarrow>es. if P e \<and> Q then f e else (0::rat)) = (if Q then (\<Sum>e\<leftarrow>es. if P e then f e else 0) else 0)"
  by (induction es) auto

section \<open>An unknown student\<close>

text \<open>The engine reads the completed sets only where the source does; the rest of a request
  is the same on two snapshots that differ in \<open>student_completed_courses\<close> alone.\<close>

lemma completed_update_candidate_courses:
  "candidate_courses c (ds\<lparr>student_completed_courses := x\<rparr>) = candidate_courses c ds"
  by (simp add: candidate_courses_def)

lemma completed_update_prerequisites_met:
  "prerequisites_met cid c (ds\<lparr>student_completed_courses := x\<rparr>) = prerequisites_met cid c ds"
  by (simp add: prerequisites_met_def Let_def cong: option.case_cong)

lemma completed_update_profile:
  "content_profile_from_courses cs (ds\<lparr>student_completed_courses := x\<rparr>)
     = content_profile_from_courses cs ds"
proof -
  have "profile_add_course (ds\<lparr>student_completed_courses := x\<rparr>) = profile_add_course ds"
    by (intro ext) (simp add: profile_add_course_def Let_def cong: option.case_cong if_cong)
  then show ?thesis by (simp add: content_profile_from_courses_def)
qed

lemma completed_update_score_content:
  "score_content cands p (ds\<lparr>student_completed_courses := x\<rparr>) = score_content cands p ds"
proof -
  have "score_course (ds\<lparr>student_completed_courses := x\<rparr>) = score_course ds"
    by (intro ext) (simp add: score_course_def Let_def cong: option.case_cong)
  then show ?thesis by (simp add: score_content_def)
qed

lemma completed_update_payload:
  "build_recommendation_payload cb ct cl (ds\<lparr>student_completed_courses := x\<rparr>) n
     = build_recommendation_payload cb ct cl ds n"
proof -
  have "payload_record ct cl (ds\<lparr>student_completed_courses := x\<rparr>) = payload_record ct cl ds"
    by (intro ext) (simp add: payload_record_def build_explanation_def Let_def cong: option.case_cong)
  then show ?thesis by (simp add: build_recommendation_payload_def)
qed

lemma no_completions_collab: "score_collaborative_history sid cands [] ds = []"
  unfolding score_collaborative_history_def
  by (rule fold_unchanged) (simp add: collab_history_step_def Let_def)

lemma recommend_for_student_by_completed:
  assumes "dict_get (student_completed_courses ds) sid [] = []"
  shows "recommend_for_student ds sid n =
     (case filter_opt (\<lambda>cid. prerequisites_met cid [] ds) (candidate_courses [] ds) of
        None \<Rightarrow> None
      | Some candidate_set \<Rightarrow>
          if candidate_set = [] then Some []
          else (case content_profile_from_courses [] ds of
                  None \<Rightarrow> None
                | Some content_profile \<Rightarrow>
                    (case score_content candidate_set content_profile ds of
                       None \<Rightarrow> None
                     | Some raw_content \<Rightarrow>
                         build_recommendation_payload
                           (combine_scores (6 / 10) (4 / 10) candidate_set
                              (normalize_scores raw_content) (normalize_scores []))
                           (normalize_scores raw_content) (normalize_scores []) ds n)))"
  unfolding recommend_for_student_def assms Let_def no_completions_collab ..

lemma unknown_student_completed:
  assumes "map_of (student_completed_courses ds) sid = None"
  shows "student_completed ds sid = []"
  using assms by (simp add: student_completed_def dict_get_def)

lemma inserted_student_completed:
  assumes "map_of (pre @ post) sid = None"
  shows "dict_get (pre @ (sid, []) # post) sid [] = []"
proof -
  from assms have "map_of pre sid = None" by (simp add: map_add_def split: option.splits)
  then show ?thesis by (simp add: dict_get_def map_add_def)
qed

lemma category_total:
  assumes "\<forall>cid\<in>set cands. \<exists>course cat. map_of (courses ds) cid = Some course
             \<and> map_of course ''category'' = Some cat"
  shows "score_content cands profile ds \<noteq> None"
proof (rule score_content_total, rule ballI)
  fix cid assume "cid \<in> set cands"
  with assms obtain course cat where "map_of (courses ds) cid = Some course"
    "map_of course ''category'' = Some cat" by blast
  then show "score_course ds profile cid \<noteq> None"
    by (simp add: score_course_def Let_def)
qed

section \<open>The claims of the specification\<close>

text \<open>
  Claim C1, as amended. On an empty interest list every returned record has
  \<open>collab_score\<close> 0, but \<open>content_score\<close> 1 and \<open>combined_score\<close> 0.7: the raw content scores
  are all 0, and the normalizer maps a map of equal values to 1. The claim as stated
  (\<open>content_score\<close> 0) fails on the small snapshot. The call returns a list whenever every
  course row has a category.
\<close>

theorem empty_interests_scores:
  "(recommend_for_interests ds [] n = Some rs \<and> r \<in> set rs \<longrightarrow>
      collab_score r = 0 \<and> content_score r = 1 \<and> combined_score r = 7 / 10)
   \<and> ((\<forall>row\<in>snd ` set (courses ds). map_of row ''category'' \<noteq> None) \<longrightarrow>
        recommend_for_interests ds [] n \<noteq> None)"
proof (rule conjI [OF impI impI])
  assume "\<forall>row\<in>snd ` set (courses ds). map_of row ''category'' \<noteq> None"
  then show "recommend_for_interests ds [] n \<noteq> None" by (rule recommend_for_interests_total)
next
  assume h: "recommend_for_interests ds [] n = Some rs \<and> r \<in> set rs"
  then obtain cb ct cl where m: "interest_score_maps ds [] = Some (cb, ct, cl)"
    and p: "build_recommendation_payload cb ct cl ds n = Some rs"
    using recommend_for_interests_maps by blast
  from h have r: "r \<in> set rs" by simp
  note cbm = interest_score_maps_Some(1) [OF m]
  note e = empty_interest_maps [OF m]
  have cand: "course_id r \<in> set (candidate_courses [] ds)" by (rule record_of_maps(1) [OF cbm p r])
  note rec = record_of_maps(2) [OF cbm p r]
  note f = payload_record_fields [OF rec]
  have ctv: "dict_get ct (course_id r) 0 = 1" unfolding e(1) by (rule dict_get_const_map [OF cand])
  have clv: "dict_get cl (course_id r) 0 = 0" unfolding e(2) by (simp add: dict_get_def)
  have "py_round3 (7 / 10) = 7 / 10" by (simp add: py_round3_def)
  then show "collab_score r = 0 \<and> content_score r = 1 \<and> combined_score r = 7 / 10"
    using f(2,3,4) by (simp add: ctv clv py_round3_0 py_round3_1)
qed

theorem empty_interests_scores_witness:
  "recommend_for_interests demo_dataset [] 1 = Some [demo_empty_record_c1]
   \<and> demo_empty_record_c1 \<in> set [demo_empty_record_c1]
   \<and> collab_score demo_empty_record_c1 = 0 \<and> content_score demo_empty_record_c1 = 1
   \<and> combined_score demo_empty_record_c1 = 7 / 10
   \<and> recommend_for_interests demo_dataset [] 1 \<noteq> None"
proof -
  have a: "recommend_for_interests demo_dataset [] 1 = Some [demo_empty_record_c1]
           \<and> demo_empty_record_c1 \<in> set [demo_empty_record_c1]"
    using demo_empty_result by simp
  note t = empty_interests_scores [of demo_dataset 1 "[demo_empty_record_c1]" demo_empty_record_c1]
  from t [THEN conjunct1, THEN mp, OF a] t [THEN conjunct2, THEN mp, OF demo_categories] a
  show ?thesis by blast
qed

theorem empty_interests_content_counterexample:
  "map_option (map content_score) (recommend_for_interests demo_dataset [] 5) = Some [1, 1, 1, 1, 1]
   \<and> map_option (map collab_score) (recommend_for_interests demo_dataset [] 5) = Some [0, 0, 0, 0, 0]
   \<and> (1::rat) \<noteq> 0"
  by code_simp

text \<open>
  Claim C2. The normalizer returns the empty map on the empty map; when all raw values are
  equal it maps every key to 1; otherwise it maps the value \<open>v\<close> of each key to
  \<open>(v - min) / (max - min)\<close>; and every value it returns lies between 0 and 1.
\<close>

theorem normalize_scores_contract:
  "normalize_scores [] = []
   \<and> (scores \<noteq> [] \<and> (\<forall>a\<in>set scores. \<forall>b\<in>set scores. snd a = snd b)
        \<longrightarrow> normalize_scores scores = map (\<lambda>(k, v). (k, 1)) scores)
   \<and> (\<not> (\<forall>a\<in>set scores. \<forall>b\<in>set scores. snd a = snd b)
        \<longrightarrow> normalize_scores scores =
              map (\<lambda>(k, v). (k, (v - Min (snd ` set scores))
                                  / (Max (snd ` set scores) - Min (snd ` set scores)))) scores)
   \<and> (\<forall>(k, v)\<in>set (normalize_scores scores). 0 \<le> v \<and> v \<le> 1)"
proof (intro conjI impI)
  show "normalize_scores [] = []" by (simp add: normalize_scores_def)
next
  assume h: "scores \<noteq> [] \<and> (\<forall>a\<in>set scores. \<forall>b\<in>set scores. snd a = snd b)"
  show "normalize_scores scores = map (\<lambda>(k, v). (k, 1)) scores"
    by (rule normalize_scores_flat [OF conjunct1 [OF h] conjunct2 [OF h]])
next
  assume "\<not> (\<forall>a\<in>set scores. \<forall>b\<in>set scores. snd a = snd b)"
  then show "normalize_scores scores =
              map (\<lambda>(k, v). (k, (v - Min (snd ` set scores))
                                  / (Max (snd ` set scores) - Min (snd ` set scores)))) scores"
    by (rule normalize_scores_spread)
next
  show "\<forall>(k, v)\<in>set (normalize_scores scores). 0 \<le> v \<and> v \<le> 1"
    using normalize_scores_range by fast
qed

theorem normalize_scores_contract_witness:
  "normalize_scores [(''c1'', 2), (''c2'', 4), (''c3'', 3)] = [(''c1'', 0), (''c2'', 1), (''c3'', 1 / 2)]
   \<and> normalize_scores [(''c1'', 5), (''c2'', 5)] = [(''c1'', 1), (''c2'', 1)]"
proof -
  let ?s1 = "[(''c1'', 2::rat), (''c2'', 4), (''c3'', 3)]"
  let ?s2 = "[(''c1'', 5::rat), (''c2'', 5)]"
  have a: "\<not> (\<forall>a\<in>set ?s1. \<forall>b\<in>set ?s1. snd a = snd b)"
    by code_simp
  have b: "?s2 \<noteq> [] \<and> (\<forall>a\<in>set ?s2. \<forall>b\<in>set ?s2. snd a = snd b)"
    by code_simp
  have e1: "map (\<lambda>(k, v). (k, (v - Min (snd ` set ?s1)) / (Max (snd ` set ?s1) - Min (snd ` set ?s1)))) ?s1
            = [(''c1'', 0), (''c2'', 1), (''c3'', 1 / 2)]"
    by code_simp
  have e2: "map (\<lambda>(k, v). (k, 1::rat)) ?s2 = [(''c1'', 1), (''c2'', 1)]"
    by code_simp
  note t1 = normalize_scores_contract [of ?s1, THEN conjunct2, THEN conjunct2, THEN conjunct1, THEN mp, OF a]
  note t2 = normalize_scores_contract [of ?s2, THEN conjunct2, THEN conjunct1, THEN mp, OF b]
  show ?thesis using t1 t2 e1 e2 by (simp only: simp_thms)
qed



text \<open>
  Claim C4. In history mode no returned course is completed by the requester, and every
  prerequisite of a returned course is in the completed set of the requester. A course
  with no declared prerequisites passes the gate whatever the completed set is, and is
  returned when it is not completed and \<open>top_n\<close> is large enough.
\<close>

theorem history_gating:
  "(recommend_for_student ds sid n = Some rs \<and> r \<in> set rs \<longrightarrow>
      course_id r \<notin> set (student_completed ds sid)
      \<and> (\<exists>course. map_of (courses ds) (course_id r) = Some course
            \<and> set (split_to_set (dict_get course ''prerequisites'' []))
                \<subseteq> set (student_completed ds sid)))
   \<and> (map_of (courses ds) cid = Some course' \<and> dict_get course' ''prerequisites'' [] = []
        \<longrightarrow> prerequisites_met cid (student_completed ds sid) ds = Some True
          \<and> (cid \<notin> set (student_completed ds sid) \<and> recommend_for_student ds sid n = Some rs
               \<and> 0 \<le> n \<and> length (courses ds) \<le> nat n
             \<longrightarrow> cid \<in> course_id ` set rs))"
proof (intro conjI impI)
  assume h: "recommend_for_student ds sid n = Some rs \<and> r \<in> set rs"
  then obtain cb ct cl where m: "student_score_maps ds sid = Some (cb, ct, cl)"
    and p: "build_recommendation_payload cb ct cl ds n = Some rs"
    using recommend_for_student_maps by blast
  from h have r: "r \<in> set rs" by simp
  have "course_id r \<in> set (student_candidates ds sid)"
    by (rule record_of_maps(1) [OF student_score_maps_Some(1) [OF m] p r])
  then have nc: "course_id r \<notin> set (student_completed ds sid)"
    and pm: "prerequisites_met (course_id r) (student_completed ds sid) ds = Some True"
    by (simp_all add: student_candidates_set)
  show "course_id r \<notin> set (student_completed ds sid)" by (rule nc)
  show "\<exists>course. map_of (courses ds) (course_id r) = Some course
            \<and> set (split_to_set (dict_get course ''prerequisites'' []))
                \<subseteq> set (student_completed ds sid)"
    by (rule prerequisites_met_True [OF pm])
next
  assume h: "map_of (courses ds) cid = Some course' \<and> dict_get course' ''prerequisites'' [] = []"
  show pm: "prerequisites_met cid (student_completed ds sid) ds = Some True"
    by (rule prerequisites_met_undeclared [OF conjunct1 [OF h] conjunct2 [OF h]])
  assume g: "cid \<notin> set (student_completed ds sid) \<and> recommend_for_student ds sid n = Some rs
               \<and> 0 \<le> n \<and> length (courses ds) \<le> nat n"
  then obtain cb ct cl where m: "student_score_maps ds sid = Some (cb, ct, cl)"
    and p: "build_recommendation_payload cb ct cl ds n = Some rs"
    using recommend_for_student_maps by blast
  from h have "(cid, course') \<in> set (courses ds)" by (auto dest: map_of_SomeD)
  then have "cid \<in> fst ` set (courses ds)" by force
  with g pm have cand: "cid \<in> set (student_candidates ds sid)"
    by (simp add: student_candidates_set)
  have "length (student_candidates ds sid) \<le> length (candidate_courses (student_completed ds sid) ds)"
    unfolding student_candidates_def by (rule length_filter_le)
  also have "\<dots> \<le> length (filter (\<lambda>c. c \<notin> set (student_completed ds sid)) (map fst (courses ds)))"
    unfolding candidate_courses_def by (rule length_remdups_leq)
  also have "\<dots> \<le> length (map fst (courses ds))" by (rule length_filter_le)
  finally have "length (student_candidates ds sid) \<le> nat n" using g by simp
  with g have "course_id ` set rs = set (student_candidates ds sid)"
    using ranked_ids(4) [OF student_score_maps_Some(1) [OF m] student_candidates_distinct p]
    by simp
  with cand show "cid \<in> course_id ` set rs" by simp
qed

theorem history_gating_witness:
  "recommend_for_student demo_dataset ''s1'' 6 = Some [demo_record_c2, demo_record_c4]
   \<and> demo_record_c2 \<in> set [demo_record_c2, demo_record_c4]
   \<and> course_id demo_record_c2 \<notin> set (student_completed demo_dataset ''s1'')
   \<and> prerequisites_met ''c4'' (student_completed demo_dataset ''s1'') demo_dataset = Some True
   \<and> ''c4'' \<in> course_id ` set [demo_record_c2, demo_record_c4]"
proof -
  have a: "recommend_for_student demo_dataset ''s1'' 6 = Some [demo_record_c2, demo_record_c4]
           \<and> demo_record_c2 \<in> set [demo_record_c2, demo_record_c4]"
    using demo_student_result by simp
  note t = history_gating [of demo_dataset "''s1''" 6 "[demo_record_c2, demo_record_c4]"
             demo_record_c2 "''c4''"]
  from t [THEN conjunct1, THEN mp, OF a]
  have b: "course_id demo_record_c2 \<notin> set (student_completed demo_dataset ''s1'')" by blast
  note u = t [THEN conjunct2, THEN mp, OF demo_c4_row]
  have c: "prerequisites_met ''c4'' (student_completed demo_dataset ''s1'') demo_dataset = Some True"
    by (rule u [THEN conjunct1])
  have "''c4'' \<notin> set (student_completed demo_dataset ''s1'')
        \<and> recommend_for_student demo_dataset ''s1'' 6 = Some [demo_record_c2, demo_record_c4]
        \<and> (0::int) \<le> 6 \<and> length (courses demo_dataset) \<le> nat 6"
    using demo_c4_in demo_student_result by blast
  then have d: "''c4'' \<in> course_id ` set [demo_record_c2, demo_record_c4]"
    by (rule u [THEN conjunct2, THEN mp])
  from a b c d show ?thesis by blast
qed

text \<open>
  Claim C5. For a request with \<open>top_n \<ge> 0\<close> the result has \<open>min top_n k\<close> records, where
  \<open>k\<close> is the number of candidates; the records are distinct candidates (no padding);
  \<open>top_n = 0\<close> gives the empty list; and a \<open>top_n\<close> of at least \<open>k\<close> gives exactly all
  candidates. In history mode the candidates are \<open>student_candidates\<close>, in interest mode
  all courses.
\<close>

theorem top_n_length:
  assumes "0 \<le> top_n"
  shows "(recommend_for_student ds sid top_n = Some rs \<longrightarrow>
            length rs = min (nat top_n) (length (student_candidates ds sid))
          \<and> distinct (map course_id rs)
          \<and> course_id ` set rs \<subseteq> set (student_candidates ds sid)
          \<and> (top_n = 0 \<longrightarrow> rs = [])
          \<and> (length (student_candidates ds sid) \<le> nat top_n \<longrightarrow>
                length rs = length (student_candidates ds sid)
              \<and> course_id ` set rs = set (student_candidates ds sid)))
       \<and> (recommend_for_interests ds tags top_n = Some rs' \<longrightarrow>
            length rs' = min (nat top_n) (length (candidate_courses [] ds))
          \<and> distinct (map course_id rs')
          \<and> course_id ` set rs' \<subseteq> set (candidate_courses [] ds)
          \<and> (top_n = 0 \<longrightarrow> rs' = [])
          \<and> (length (candidate_courses [] ds) \<le> nat top_n \<longrightarrow>
                length rs' = length (candidate_courses [] ds)
              \<and> course_id ` set rs' = set (candidate_courses [] ds)))"
proof (intro conjI impI)
  assume r: "recommend_for_student ds sid top_n = Some rs"
  then obtain cb ct cl where m: "student_score_maps ds sid = Some (cb, ct, cl)"
    and p: "build_recommendation_payload cb ct cl ds top_n = Some rs"
    by (rule recommend_for_student_maps)
  note f = ranked_ids [OF student_score_maps_Some(1) [OF m] student_candidates_distinct p]
  show len: "length rs = min (nat top_n) (length (student_candidates ds sid))"
    by (rule f(3) [OF assms])
  show "distinct (map course_id rs)" by (rule f(1))
  show "course_id ` set rs \<subseteq> set (student_candidates ds sid)" by (rule f(2))
  { assume "top_n = 0" with len show "rs = []" by simp }
  { assume all: "length (student_candidates ds sid) \<le> nat top_n"
    with len show "length rs = length (student_candidates ds sid)" by simp
    show "course_id ` set rs = set (student_candidates ds sid)" by (rule f(4) [OF assms all]) }
next
  assume r: "recommend_for_interests ds tags top_n = Some rs'"
  then obtain cb ct cl where m: "interest_score_maps ds tags = Some (cb, ct, cl)"
    and p: "build_recommendation_payload cb ct cl ds top_n = Some rs'"
    by (rule recommend_for_interests_maps)
  note f = ranked_ids [OF interest_score_maps_Some(1) [OF m] candidate_courses_distinct p]
  show len: "length rs' = min (nat top_n) (length (candidate_courses [] ds))"
    by (rule f(3) [OF assms])
  show "distinct (map course_id rs')" by (rule f(1))
  show "course_id ` set rs' \<subseteq> set (candidate_courses [] ds)" by (rule f(2))
  { assume "top_n = 0" with len show "rs' = []" by simp }
  { assume all: "length (candidate_courses [] ds) \<le> nat top_n"
    with len show "length rs' = length (candidate_courses [] ds)" by simp
    show "course_id ` set rs' = set (candidate_courses [] ds)" by (rule f(4) [OF assms all]) }
qed

theorem top_n_length_witness:
  "(0::int) \<le> 1
   \<and> map_option length (recommend_for_student demo_dataset ''s1'' 1) = Some 1
   \<and> map_option length (recommend_for_interests demo_dataset [''py'', ''ml''] 1) = Some 1
   \<and> recommend_for_student demo_dataset ''s1'' 0 = Some []
   \<and> recommend_for_student demo_dataset ''s1'' 6 = Some [demo_record_c2, demo_record_c4]
   \<and> course_id ` set [demo_record_c2, demo_record_c4] = set [''c2'', ''c4'']"
proof -
  from demo_student_top1 obtain rs
    where rs: "recommend_for_student demo_dataset ''s1'' 1 = Some rs" by blast
  from demo_interest_top1 obtain rs'
    where rs': "recommend_for_interests demo_dataset [''py'', ''ml''] 1 = Some rs'" by blast
  have n: "(0::int) \<le> 1" by simp
  note t = top_n_length [OF n, of demo_dataset "''s1''" rs "[''py'', ''ml'']" rs']
  from t rs have "length rs = min (nat 1) (length (student_candidates demo_dataset ''s1''))"
    by blast
  then have a: "length rs = 1" by (simp add: demo_student_candidates)
  from t rs' have "length rs' = min (nat 1) (length (candidate_courses [] demo_dataset))"
    by blast
  then have b: "length rs' = 1" by (simp add: demo_candidates)
  from demo_student_none obtain rs0
    where rs0: "recommend_for_student demo_dataset ''s1'' 0 = Some rs0" by blast
  have n0: "(0::int) \<le> 0" by simp
  from top_n_length [OF n0, of demo_dataset "''s1''" rs0 "[]" "[]"] rs0
  have c: "rs0 = []" by blast
  have n6: "(0::int) \<le> 6" by simp
  have l6: "length (student_candidates demo_dataset ''s1'') \<le> nat 6"
    by (simp add: demo_student_candidates)
  from top_n_length [OF n6, of demo_dataset "''s1''" "[demo_record_c2, demo_record_c4]" "[]" "[]"]
    demo_student_result l6
  have "course_id ` set [demo_record_c2, demo_record_c4] = set (student_candidates demo_dataset ''s1'')"
    by blast
  then have d: "course_id ` set [demo_record_c2, demo_record_c4] = set [''c2'', ''c4'']"
    unfolding demo_student_candidates .
  show ?thesis using a b c d demo_student_result by (simp add: rs rs' rs0)
qed

text \<open>
  Claim C6, as amended. The helper \<open>content_profile_from_interests\<close> adds 1 for every
  occurrence of a tag in the sequence it is given. Interest mode hands it the set of the
  distinct non-empty supplied tags, so in the profile used for content scoring a supplied
  non-empty tag has weight exactly 1, however often it was supplied, and any other tag
  weight 0; supplying a tag once more does not change the result of the request.
\<close>

theorem interest_profile_weights:
  "dict_get (content_profile_from_interests xs) t 0 = of_nat (count_list xs t)
   \<and> dict_get (content_profile_from_interests (cleaned_interests tags)) t 0
       = (if t \<noteq> [] \<and> t \<in> set tags then 1 else 0)
   \<and> (t \<in> set tags \<longrightarrow>
        recommend_for_interests ds (t # tags) n = recommend_for_interests ds tags n)"
proof (intro conjI impI)
  show a: "dict_get (content_profile_from_interests xs) t 0 = of_nat (count_list xs t)" for xs
    unfolding content_profile_from_interests_def
    by (simp add: profile_fold_count) (simp add: dict_get_def)
  have "distinct (cleaned_interests tags)" unfolding cleaned_interests_def by simp
  then have "count_list (cleaned_interests tags) t = (if t \<noteq> [] \<and> t \<in> set tags then 1 else 0)"
    by (simp add: count_list_distinct cleaned_interests_set)
  then show "dict_get (content_profile_from_interests (cleaned_interests tags)) t 0
       = (if t \<noteq> [] \<and> t \<in> set tags then 1 else 0)"
    unfolding a by simp
next
  assume "t \<in> set tags"
  then have "cleaned_interests (t # tags) = cleaned_interests tags"
    unfolding cleaned_interests_def by simp
  then show "recommend_for_interests ds (t # tags) n = recommend_for_interests ds tags n"
    by (rule recommend_for_interests_cleaned)
qed

theorem interest_profile_weights_witness:
  "dict_get (content_profile_from_interests [''py'', ''py'', ''ml'']) ''py'' 0 = 2
   \<and> dict_get (content_profile_from_interests (cleaned_interests [''py'', ''py'', ''ml''])) ''py'' 0 = 1
   \<and> ''py'' \<in> set [''py'', ''ml'']
   \<and> recommend_for_interests demo_dataset [''py'', ''py'', ''ml''] 5
       = recommend_for_interests demo_dataset [''py'', ''ml''] 5"
proof -
  note t = interest_profile_weights [of "[''py'', ''py'', ''ml'']" "''py''" "[''py'', ''py'', ''ml'']"]
  note u = interest_profile_weights [of "[]" "''py''" "[''py'', ''ml'']" demo_dataset 5]
  have m: "''py'' \<in> set [''py'', ''ml'']" by simp
  have c: "of_nat (count_list [''py'', ''py'', ''ml''] ''py'') = (2::rat)" by code_simp
  have d: "(if ''py'' \<noteq> [] \<and> ''py'' \<in> set [''py'', ''py'', ''ml''] then 1 else 0) = (1::rat)"
    by code_simp
  from t [THEN conjunct1] c
  have a: "dict_get (content_profile_from_interests [''py'', ''py'', ''ml'']) ''py'' 0 = 2" by simp
  from t [THEN conjunct2, THEN conjunct1] d
  have b: "dict_get (content_profile_from_interests (cleaned_interests [''py'', ''py'', ''ml''])) ''py'' 0 = 1"
    by simp
  from u [THEN conjunct2, THEN conjunct2, THEN mp, OF m]
  have e: "recommend_for_interests demo_dataset [''py'', ''py'', ''ml''] 5
       = recommend_for_interests demo_dataset [''py'', ''ml''] 5" .
  from a b m e show ?thesis by blast
qed

theorem interest_profile_counterexample:
  "count_list [''py'', ''py'', ''ml''] ''py'' = 2
   \<and> dict_get (content_profile_from_interests (cleaned_interests [''py'', ''py'', ''ml''])) ''py'' 0 = 1
   \<and> interest_score_maps demo_dataset [''py'', ''py'', ''ml'']
       = interest_score_maps demo_dataset [''py'', ''ml'']
   \<and> map_option (map content_score) (recommend_for_interests demo_dataset [''py'', ''py'', ''ml''] 5)
       = Some [1, 1, 1, 0, 0]
   \<and> map_option (map course_id) (recommend_for_interests demo_dataset [''py'', ''py'', ''ml''] 5)
       = Some [''c1'', ''c4'', ''c3'', ''c2'', ''c5'']"
  by code_simp

text \<open>
  Claim C7. The raw history-variant collaborative score of a course that is a candidate
  and not completed by the requester is the sum, over the entries of the snapshot for
  another student whose completed set meets the requester's and contains the course, of
  the Jaccard similarity of the two completed sets; any other course gets no score. Each
  completed set is a set: its list has no duplicates.
\<close>

theorem collaborative_history_score:
  assumes "\<forall>e\<in>set (student_completed_courses ds). distinct (snd e)"
  shows "dict_get (score_collaborative_history sid cands completed ds) c 0
         = (if c \<in> set cands \<and> c \<notin> set completed
            then (\<Sum>e\<leftarrow>student_completed_courses ds.
                    if fst e \<noteq> sid \<and> set completed \<inter> set (snd e) \<noteq> {} \<and> c \<in> set (snd e)
                    then jaccard completed (snd e) else 0)
            else 0)"
proof -
  have "(\<Sum>e\<leftarrow>student_completed_courses ds.
           if fst e \<noteq> sid \<and> set completed \<inter> set (snd e) \<noteq> {} \<and> c \<in> set (snd e)
              \<and> c \<in> set cands \<and> c \<notin> set completed
           then jaccard completed (snd e) else 0)
        = (\<Sum>e\<leftarrow>student_completed_courses ds.
           if (fst e \<noteq> sid \<and> set completed \<inter> set (snd e) \<noteq> {} \<and> c \<in> set (snd e))
              \<and> (c \<in> set cands \<and> c \<notin> set completed)
           then jaccard completed (snd e) else 0)"
    by simp
  also have "\<dots> = (if c \<in> set cands \<and> c \<notin> set completed
            then (\<Sum>e\<leftarrow>student_completed_courses ds.
                    if fst e \<noteq> sid \<and> set completed \<inter> set (snd e) \<noteq> {} \<and> c \<in> set (snd e)
                    then jaccard completed (snd e) else 0)
            else 0)"
    by (rule sum_list_gate)
  finally show ?thesis
    unfolding score_collaborative_history_def collab_history_fold_get [OF assms]
    by (simp add: dict_get_def)
qed

theorem collaborative_history_score_witness:
  "dict_get (score_collaborative_history ''s1'' [''c2'', ''c4''] [''c1''] demo_dataset) ''c4'' 0
     = 1 / 3 + 1 / 2"
proof -
  from collaborative_history_score [OF demo_sets_distinct, of "''s1''" "[''c2'', ''c4'']" "[''c1'']" "''c4''"]
  have "dict_get (score_collaborative_history ''s1'' [''c2'', ''c4''] [''c1''] demo_dataset) ''c4'' 0
          = 5 / 6"
    unfolding demo_collab_sum .
  then show ?thesis by simp
qed

text \<open>
  Claim C8. A student identifier without an entry in the snapshot has the empty completed
  set, and the request returns what it returns on the snapshot extended, at any position,
  by an entry with the empty completed set for that identifier. It does not raise when the
  rows of the candidates carry a category, and the candidates are the courses whose
  prerequisite field names no course.
\<close>

theorem unknown_student:
  assumes "map_of (student_completed_courses ds) sid = None"
  shows "student_completed ds sid = []
   \<and> (\<forall>pre post. student_completed_courses ds = pre @ post \<longrightarrow>
         recommend_for_student ds sid n
           = recommend_for_student (ds\<lparr>student_completed_courses := pre @ (sid, []) # post\<rparr>) sid n)
   \<and> ((\<forall>cid\<in>set (student_candidates ds sid). \<exists>course cat.
          map_of (courses ds) cid = Some course \<and> map_of course ''category'' = Some cat)
        \<longrightarrow> recommend_for_student ds sid n \<noteq> None)
   \<and> set (student_candidates ds sid)
       = {cid \<in> fst ` set (courses ds).
            \<exists>course. map_of (courses ds) cid = Some course
              \<and> split_to_set (dict_get course ''prerequisites'' []) = []}"
proof (intro conjI allI impI)
  show c0: "student_completed ds sid = []" by (rule unknown_student_completed [OF assms])
  then have g: "dict_get (student_completed_courses ds) sid [] = []"
    by (simp add: student_completed_def)
  {
    fix pre post
    assume split: "student_completed_courses ds = pre @ post"
    let ?ds' = "ds\<lparr>student_completed_courses := pre @ (sid, []) # post\<rparr>"
    have "map_of (pre @ post) sid = None" using assms split by simp
    then have "dict_get (pre @ (sid, []) # post) sid [] = []" by (rule inserted_student_completed)
    then have g': "dict_get (student_completed_courses ?ds') sid [] = []" by simp
    show "recommend_for_student ds sid n = recommend_for_student ?ds' sid n"
      unfolding recommend_for_student_by_completed [OF g]
        recommend_for_student_by_completed [OF g']
        completed_update_candidate_courses completed_update_prerequisites_met
        completed_update_profile completed_update_score_content completed_update_payload ..
  }
  {
    assume cat: "\<forall>cid\<in>set (student_candidates ds sid). \<exists>course cat.
          map_of (courses ds) cid = Some course \<and> map_of course ''category'' = Some cat"
    obtain cb ct cl where m: "student_score_maps ds sid = Some (cb, ct, cl)"
    proof (cases "student_candidates ds sid = []")
      case True
      then have "student_score_maps ds sid = Some ([], [], [])"
        unfolding student_score_maps_def by (simp add: Let_def student_filter_opt)
      then show ?thesis by (rule that)
    next
      case False
      have p: "content_profile_from_courses (student_completed ds sid) ds = Some []"
        unfolding c0 by (simp add: content_profile_from_courses_def)
      from category_total [OF cat] obtain raw
        where "score_content (student_candidates ds sid) [] ds = Some raw" by blast
      with False p have "\<exists>x. student_score_maps ds sid = Some x"
        unfolding student_score_maps_def by (simp add: Let_def student_filter_opt)
      then show ?thesis using that by (metis prod_cases3)
    qed
    have "fst ` set cb = set (student_candidates ds sid)"
      unfolding student_score_maps_Some(1) [OF m] by (simp add: image_comp comp_def)
    also have "\<dots> \<subseteq> fst ` set (courses ds)"
      unfolding student_candidates_set by (rule Collect_restrict)
    finally have "fst ` set cb \<subseteq> fst ` set (courses ds)" .
    then have "build_recommendation_payload cb ct cl ds n \<noteq> None" by (rule build_payload_total)
    then show "recommend_for_student ds sid n \<noteq> None"
      unfolding recommend_for_student_factor m by simp
  }
  show "set (student_candidates ds sid)
       = {cid \<in> fst ` set (courses ds).
            \<exists>course. map_of (courses ds) cid = Some course
              \<and> split_to_set (dict_get course ''prerequisites'' []) = []}"
    unfolding student_candidates_set c0 prerequisites_met_def
    by (auto simp: Let_def split_to_set_empty split: option.splits if_splits)
qed

theorem unknown_student_witness:
  "map_of (student_completed_courses demo_dataset) ''zz'' = None
   \<and> student_completed demo_dataset ''zz'' = []
   \<and> recommend_for_student demo_dataset ''zz'' 2
       = recommend_for_student
           (demo_dataset\<lparr>student_completed_courses :=
              student_completed_courses demo_dataset @ [(''zz'', [])]\<rparr>) ''zz'' 2
   \<and> recommend_for_student demo_dataset ''zz'' 2 \<noteq> None"
proof -
  note t = unknown_student [OF demo_unknown, of 2]
  have a: "student_completed demo_dataset ''zz'' = []" by (rule t [THEN conjunct1])
  have "student_completed_courses demo_dataset = student_completed_courses demo_dataset @ []"
    by simp
  with t [THEN conjunct2, THEN conjunct1]
  have b: "recommend_for_student demo_dataset ''zz'' 2
       = recommend_for_student
           (demo_dataset\<lparr>student_completed_courses :=
              student_completed_courses demo_dataset @ [(''zz'', [])]\<rparr>) ''zz'' 2"
    by blast
  have c: "recommend_for_student demo_dataset ''zz'' 2 \<noteq> None"
    by (rule t [THEN conjunct2, THEN conjunct2, THEN conjunct1, THEN mp, OF demo_unknown_categories])
  from demo_unknown a b c show ?thesis by blast
qed





end
